theory Spec2Isabelle
  imports Complex_Main "HOL-Library.Word"
begin

section \<open>JavaScript strings\<close>

text \<open>
  A JavaScript string is a sequence of UTF-16 code units. The regular expression and
  \<^verbatim>\<open>parseInt\<close> used by \<^verbatim>\<open>handlePresentationFlow\<close> both work on code units (the
  expression has no \<^verbatim>\<open>u\<close> flag), so a string is a list of 16-bit words. \<open>js\<close> embeds
  an ASCII literal of the source.
\<close>

type_synonym jsstring = "16 word list"

definition js :: "string \<Rightarrow> jsstring" where
  "js s = map of_char s"

text \<open>Truthiness of a value of type \<^verbatim>\<open>string | null\<close>: null and the empty string are falsy.\<close>

fun truthy :: "jsstring option \<Rightarrow> bool" where
  "truthy None = False"
| "truthy (Some s) = (s \<noteq> [])"

text \<open>\<^verbatim>\<open>String.prototype.includes\<close>: the needle occurs at some position of the string.\<close>

fun startsWith :: "jsstring \<Rightarrow> jsstring \<Rightarrow> bool" where
  "startsWith s [] = True"
| "startsWith [] (n # ns) = False"
| "startsWith (c # cs) (n # ns) = (c = n \<and> startsWith cs ns)"

fun includes_str :: "jsstring \<Rightarrow> jsstring \<Rightarrow> bool" where
  "includes_str [] needle = (needle = [])"
| "includes_str (c # cs) needle = (startsWith (c # cs) needle \<or> includes_str cs needle)"

section \<open>The exported file name\<close>

text \<open>
  \<^verbatim>\<open>const fileName = `${data.title.replace(/[^a-z0-9]/gi, '_').toLowerCase()}.pptx`;\<close>

  Without the \<^verbatim>\<open>u\<close> flag the case-insensitive class \<^verbatim>\<open>[^a-z0-9]\<close> matches exactly
  the code units outside \<open>a-z\<close>, \<open>A-Z\<close>, \<open>0-9\<close>: canonicalisation never maps a code unit
  of 128 or more to one below 128. Each matching code unit is replaced by \<open>_\<close>.
\<close>

definition isAlnum :: "16 word \<Rightarrow> bool" where
  "isAlnum c = ((0x61 \<le> c \<and> c \<le> 0x7A) \<or> (0x41 \<le> c \<and> c \<le> 0x5A) \<or> (0x30 \<le> c \<and> c \<le> 0x39))"

definition replaceNonAlnum :: "jsstring \<Rightarrow> jsstring" where
  "replaceNonAlnum s = map (\<lambda>c. if isAlnum c then c else 0x5F) s"

text \<open>
  \<^verbatim>\<open>toLowerCase\<close> is applied to the result of the replacement, a string over
  \<open>a-z\<close>, \<open>A-Z\<close>, \<open>0-9\<close> and \<open>_\<close>; there it maps \<open>A-Z\<close> to \<open>a-z\<close> and leaves the rest.
  Only this ASCII part of the built-in is modelled.
\<close>

definition toLowerCase :: "jsstring \<Rightarrow> jsstring" where
  "toLowerCase s = map (\<lambda>c. if 0x41 \<le> c \<and> c \<le> 0x5A then c + 0x20 else c) s"

definition baseName :: "jsstring \<Rightarrow> jsstring" where
  "baseName title = toLowerCase (replaceNonAlnum title)"

definition fileName :: "jsstring \<Rightarrow> jsstring" where
  "fileName title = baseName title @ js ''.pptx''"

section \<open>The slide count\<close>

text \<open>
  \<^verbatim>\<open>const count = parseInt(input);\<close>
  \<^verbatim>\<open>if (isNaN(count) || count < 1 || count > 20) { ... return; }\<close>

  \<^verbatim>\<open>parseInt\<close> is the ECMAScript built-in with no radix argument: leading white space
  is dropped, one sign is read, a \<open>0x\<close> or \<open>0X\<close> prefix selects radix 16, and the
  longest prefix of digits of the radix is the value; no digit at all gives NaN, which
  is \<open>None\<close> here. The value is an \<open>int\<close>: the rounding of the built-in to a double is
  monotone and exact up to \<open>2 ^ 53\<close>, so the comparisons with 1 and 20 and every
  accepted count are the same.
\<close>

definition isWhiteSpace :: "16 word \<Rightarrow> bool" where
  "isWhiteSpace c = (c \<in> {0x09, 0x0A, 0x0B, 0x0C, 0x0D, 0x20, 0xA0, 0x1680, 0x2028, 0x2029,
                          0x202F, 0x205F, 0x3000, 0xFEFF} \<or> (0x2000 \<le> c \<and> c \<le> 0x200A))"

definition digitValue :: "16 word \<Rightarrow> nat option" where
  "digitValue c =
     (if 0x30 \<le> c \<and> c \<le> 0x39 then Some (unat c - 48)
      else if 0x61 \<le> c \<and> c \<le> 0x7A then Some (unat c - 87)
      else if 0x41 \<le> c \<and> c \<le> 0x5A then Some (unat c - 55)
      else None)"

definition isRadixDigit :: "nat \<Rightarrow> 16 word \<Rightarrow> bool" where
  "isRadixDigit R c = (case digitValue c of None \<Rightarrow> False | Some d \<Rightarrow> d < R)"

definition mathInt :: "nat \<Rightarrow> jsstring \<Rightarrow> nat" where
  "mathInt R Z = foldl (\<lambda>a c. a * R + (case digitValue c of None \<Rightarrow> 0 | Some d \<Rightarrow> d)) 0 Z"

definition parseInt :: "jsstring \<Rightarrow> int option" where
  "parseInt inputString =
     (let S = dropWhile isWhiteSpace inputString;
          sign = (if S \<noteq> [] \<and> hd S = 0x2D then - 1 else 1);
          S1 = (if S \<noteq> [] \<and> (hd S = 0x2B \<or> hd S = 0x2D) then tl S else S);
          hex = (2 \<le> length S1 \<and> (take 2 S1 = js ''0x'' \<or> take 2 S1 = js ''0X''));
          R = (if hex then 16 else 10);
          S2 = (if hex then drop 2 S1 else S1);
          Z = takeWhile (isRadixDigit R) S2
      in if Z = [] then None else Some (sign * int (mathInt R Z)))"

text \<open>The guard of the COUNT step: \<open>None\<close> is the rejection, \<open>Some count\<close> the accepted count.\<close>

definition validCount :: "jsstring \<Rightarrow> int option" where
  "validCount input =
     (case parseInt input of
        None \<Rightarrow> None
      | Some count \<Rightarrow> if count < 1 \<or> count > 20 then None else Some count)"

section \<open>Presentation data\<close>

text \<open>
  \<^verbatim>\<open>PresentationData\<close> of \<^verbatim>\<open>types.ts\<close>. Its \<^verbatim>\<open>title\<close> field is \<open>deckTitle\<close> here,
  since a slide has a \<^verbatim>\<open>title\<close> of its own. \<open>slide_with_image\<close> is the object
  \<^verbatim>\<open>{ ...slide, imageBase64 }\<close> pushed by the image loop; \<open>None\<close> is \<^verbatim>\<open>null\<close>.
\<close>

record slide_data =
  title :: jsstring
  bullets :: "jsstring list"
  examples :: "jsstring list"
  imageDescription :: jsstring
  speakerNotes :: jsstring

record slide_with_image = slide_data +
  imageBase64 :: "jsstring option"

record PresentationData =
  deckTitle :: jsstring
  slides :: "slide_data list"

section \<open>The presentation object\<close>

text \<open>
  The calls on the presentation library are recorded as they are made: a slide is its
  background, the elements added to it in call order, and its notes. A position or size
  is a number of inches or a percentage string such as \<^verbatim>\<open>'90%'\<close>. Numbers are exact
  rationals; an option that a call does not pass is \<open>None\<close> or \<open>False\<close>.
\<close>

datatype dim = Inches rat | Percent nat

record geometry =
  pos_x :: dim
  pos_y :: dim
  width :: dim
  height :: "dim option"

record text_options =
  geom :: geometry
  fontSize :: "nat option"
  bold :: bool
  color :: "string option"
  align :: "string option"
  valign :: "string option"
  rtl :: bool
  shrinkText :: bool
  lineSpacing :: "nat option"

datatype bullet = BulletPlain | BulletNumber

record run_options =
  run_fontSize :: nat
  run_color :: string
  breakLine :: bool
  run_bullet :: bullet
  inset :: "nat option"
  run_rtl :: bool
  run_align :: string

record text_run =
  run_text :: jsstring
  run_opts :: run_options

datatype text_body = Plain jsstring | Runs "text_run list"

record sizing =
  sizing_type :: string
  sizing_w :: rat
  sizing_h :: rat

datatype element =
    TextEl text_body text_options
  | ImageEl jsstring geometry sizing
  | ShapeEl string geometry string

record pptx_slide =
  background :: string
  elements :: "element list"
  slide_notes :: "jsstring option"

record presentation =
  rtlMode :: bool
  layout :: string
  pres_slides :: "pptx_slide list"

definition addText :: "text_body \<Rightarrow> text_options \<Rightarrow> pptx_slide \<Rightarrow> pptx_slide" where
  "addText body opts slide = slide\<lparr>elements := elements slide @ [TextEl body opts]\<rparr>"

definition addImage :: "jsstring \<Rightarrow> geometry \<Rightarrow> sizing \<Rightarrow> pptx_slide \<Rightarrow> pptx_slide" where
  "addImage img g sz slide = slide\<lparr>elements := elements slide @ [ImageEl img g sz]\<rparr>"

definition addShape :: "string \<Rightarrow> geometry \<Rightarrow> string \<Rightarrow> pptx_slide \<Rightarrow> pptx_slide" where
  "addShape shape g fill slide = slide\<lparr>elements := elements slide @ [ShapeEl shape g fill]\<rparr>"

definition addNotes :: "jsstring \<Rightarrow> pptx_slide \<Rightarrow> pptx_slide" where
  "addNotes n slide = slide\<lparr>slide_notes := Some n\<rparr>"

definition addSlide :: "string \<Rightarrow> pptx_slide" where
  "addSlide bg = \<lparr>background = bg, elements = [], slide_notes = None\<rparr>"

text \<open>The options object \<^verbatim>\<open>{ x, y, w, h }\<close> and a text options object with nothing else set.\<close>

definition xywh :: "rat \<Rightarrow> rat \<Rightarrow> rat \<Rightarrow> rat \<Rightarrow> geometry" where
  "xywh px py pw ph =
     \<lparr>pos_x = Inches px, pos_y = Inches py, width = Inches pw, height = Some (Inches ph)\<rparr>"

definition opts :: "geometry \<Rightarrow> text_options" where
  "opts g = \<lparr>geom = g, fontSize = None, bold = False, color = None, align = None,
             valign = None, rtl = False, shrinkText = False, lineSpacing = None\<rparr>"

fun geometry_of :: "element \<Rightarrow> geometry" where
  "geometry_of (TextEl body to) = geom to"
| "geometry_of (ImageEl img g sz) = g"
| "geometry_of (ShapeEl shape g fill) = g"

section \<open>Layout constants and the two kinds of slide\<close>

text \<open>
  The source computes these with double-precision numbers. The values compared in the
  theorems below are either the same expression of the source on both sides or, as
  \<open>SLIDE_WIDTH - MARGIN * 2 = 9\<close>, exact in binary as well; \<open>textWidth\<close> is about
  \<open>5.6\<close> in either arithmetic.
\<close>

definition SLIDE_WIDTH :: rat where "SLIDE_WIDTH = 10"
definition SLIDE_HEIGHT :: rat where "SLIDE_HEIGHT = 5.625"
definition MARGIN :: rat where "MARGIN = 0.5"

definition contentY :: rat where "contentY = 1.1"
definition contentHeight :: rat where "contentHeight = 2.8"
definition imageWidth :: rat where "imageWidth = 3.2"
definition textWidth :: rat where "textWidth = SLIDE_WIDTH - (MARGIN * 2) - imageWidth - 0.2"
definition textX :: rat where "textX = SLIDE_WIDTH - MARGIN - textWidth"
definition imageX :: rat where "imageX = MARGIN"
definition examplesY :: rat where "examplesY = contentY + contentHeight + 0.1"
definition examplesHeight :: rat where "examplesHeight = SLIDE_HEIGHT - examplesY - MARGIN"

text \<open>The three literal texts of the source that are not ASCII, as code units.\<close>

definition attributionText :: jsstring where
  "attributionText = [0x62A, 0x645, 0x20, 0x627, 0x644, 0x625, 0x646, 0x634, 0x627, 0x621, 0x20,
     0x628, 0x648, 0x627, 0x633, 0x637, 0x629, 0x20] @ js ''MathMind AI''"

definition noImageText :: jsstring where
  "noImageText = [0x644, 0x627, 0x20, 0x62A, 0x648, 0x62C, 0x62F, 0x20, 0x635, 0x648, 0x631, 0x629]"

definition examplesLabelText :: jsstring where
  "examplesLabelText = [0x623, 0x645, 0x62B, 0x644, 0x629, 0x3A]"

definition titleSlide :: "PresentationData \<Rightarrow> pptx_slide" where
  "titleSlide data =
     (let titleSlide0 = addSlide ''F1F5F9'';
          g1 = \<lparr>pos_x = Inches 0.5, pos_y = Inches 2.0, width = Percent 90, height = None\<rparr>;
          titleSlide1 = addText (Plain (deckTitle data))
            ((opts g1)\<lparr>fontSize := Some 36, align := Some ''center'', color := Some ''0F172A'',
                       bold := True, rtl := True\<rparr>) titleSlide0;
          g2 = \<lparr>pos_x = Inches 0.5, pos_y = Inches 3.5, width = Percent 90, height = None\<rparr>
      in addText (Plain attributionText)
            ((opts g2)\<lparr>fontSize := Some 18, align := Some ''center'', color := Some ''475569'',
                       rtl := True\<rparr>) titleSlide1)"

definition bulletRun :: "jsstring \<Rightarrow> text_run" where
  "bulletRun b = \<lparr>run_text = b,
     run_opts = \<lparr>run_fontSize = 16, run_color = ''334155'', breakLine = True,
                 run_bullet = BulletPlain, inset = Some 5, run_rtl = True, run_align = ''right''\<rparr>\<rparr>"

definition exampleRun :: "jsstring \<Rightarrow> text_run" where
  "exampleRun e = \<lparr>run_text = e,
     run_opts = \<lparr>run_fontSize = 14, run_color = ''475569'', breakLine = False,
                 run_bullet = BulletNumber, inset = None, run_rtl = True, run_align = ''right''\<rparr>\<rparr>"

text \<open>The body of \<^verbatim>\<open>slidesWithImages.forEach(s => { ... })\<close>, statement by statement.\<close>

definition contentSlide :: "slide_with_image \<Rightarrow> pptx_slide" where
  "contentSlide s =
     (let slide0 = addSlide ''FFFFFF'';
          slide1 = addText (Plain (title s))
            ((opts (xywh MARGIN 0.3 (SLIDE_WIDTH - (MARGIN * 2)) 0.7))
               \<lparr>fontSize := Some 24, bold := True, color := Some ''4F46E5'',
                valign := Some ''middle'', rtl := True, align := Some ''right''\<rparr>) slide0;
          slide2 =
            (if truthy (imageBase64 s) then
               addImage (case imageBase64 s of Some d \<Rightarrow> d | None \<Rightarrow> [])
                 (xywh imageX contentY imageWidth contentHeight)
                 \<lparr>sizing_type = ''contain'', sizing_w = imageWidth, sizing_h = contentHeight\<rparr> slide1
             else
               addText (Plain noImageText)
                 ((opts (xywh imageX contentY imageWidth contentHeight))
                    \<lparr>fontSize := Some 10, align := Some ''center'', color := Some ''94A3B8''\<rparr>)
                 (addShape ''rect'' (xywh imageX contentY imageWidth contentHeight) ''F1F5F9'' slide1));
          slide3 = addText (Runs (map bulletRun (bullets s)))
            ((opts (xywh textX contentY textWidth contentHeight))
               \<lparr>lineSpacing := Some 24, valign := Some ''top'', shrinkText := True, rtl := True,
                align := Some ''right''\<rparr>) slide2;
          slide4 =
            (if examples s \<noteq> [] then
               addText (Runs (map exampleRun (examples s)))
                 ((opts (xywh MARGIN (examplesY + 0.3) (SLIDE_WIDTH - (MARGIN * 2))
                          (examplesHeight - 0.3)))
                    \<lparr>valign := Some ''top'', shrinkText := True, rtl := True,
                     align := Some ''right''\<rparr>)
                 (addText (Plain examplesLabelText)
                    ((opts (xywh MARGIN examplesY textWidth 0.3))
                       \<lparr>fontSize := Some 14, bold := True, color := Some ''0F172A'', rtl := True,
                        align := Some ''right''\<rparr>) slide3)
             else slide3)
      in if speakerNotes s \<noteq> [] then addNotes (speakerNotes s) slide4 else slide4)"

definition buildPresentation :: "PresentationData \<Rightarrow> slide_with_image list \<Rightarrow> presentation" where
  "buildPresentation data slidesWithImages =
     \<lparr>rtlMode = True, layout = ''LAYOUT_16x9'',
      pres_slides = titleSlide data # map contentSlide slidesWithImages\<rparr>"

section \<open>The remote service\<close>

text \<open>
  \<^verbatim>\<open>geminiService.ts\<close> talks to a remote service through \<^verbatim>\<open>ai.models.generateContent\<close>.
  The service is a parameter: it answers a request, given the requests made before it,
  with a rejection (an error object with its \<^verbatim>\<open>status\<close> and \<^verbatim>\<open>message\<close>) or a
  response. Every request is appended to a log, so the order of the calls can be read
  off. An image response is reduced to the list
  \<^verbatim>\<open>response.candidates?.[0]?.content?.parts || []\<close>, a part to the \<^verbatim>\<open>data\<close> of its
  \<^verbatim>\<open>inlineData\<close> when it has one. For the text content, the request and the parsing of
  the JSON answer are one step that yields a \<^verbatim>\<open>PresentationData\<close> or fails. A value
  thrown by the service is an error object, as the \<^verbatim>\<open>catch\<close> blocks take it to be.
\<close>

datatype api_error = ApiError (status: "int option") (message: "jsstring option")

datatype part = Part (inlineData: "jsstring option")

datatype request =
    ContentRequest jsstring int
  | ImageRequest string jsstring "string option"

datatype exn = MissingApiKey | PresentationContentError | WriteFileError

record env =
  apiKey :: "jsstring option"
  contentService :: "request list \<Rightarrow> jsstring \<Rightarrow> int \<Rightarrow> api_error + PresentationData"
  imageService :: "request list \<Rightarrow> request \<Rightarrow> api_error + part list"
  writeFileFails :: bool

definition getAiClient :: "env \<Rightarrow> exn + unit" where
  "getAiClient e = (if \<not> truthy (apiKey e) then Inl MissingApiKey else Inr ())"

fun extractImageFromResponse :: "part list \<Rightarrow> jsstring option" where
  "extractImageFromResponse [] = None"
| "extractImageFromResponse (p # ps) =
     (case inlineData p of
        Some d \<Rightarrow> Some (js ''data:image/png;base64,'' @ d)
      | None \<Rightarrow> extractImageFromResponse ps)"

definition generateContent ::
  "env \<Rightarrow> request \<Rightarrow> request list \<Rightarrow> (api_error + part list) \<times> request list" where
  "generateContent e req lg = (imageService e lg req, lg @ [req])"

definition generatePresentationContent ::
  "env \<Rightarrow> jsstring \<Rightarrow> int \<Rightarrow> request list \<Rightarrow> (exn + PresentationData) \<times> request list" where
  "generatePresentationContent e topic slideCount lg =
     (case getAiClient e of
        Inl err \<Rightarrow> (Inl err, lg)
      | Inr ai \<Rightarrow>
          (case contentService e lg topic slideCount of
             Inl err \<Rightarrow> (Inl PresentationContentError, lg @ [ContentRequest topic slideCount])
           | Inr data \<Rightarrow> (Inr data, lg @ [ContentRequest topic slideCount])))"

text \<open>
  \<^verbatim>\<open>generateSlideImage\<close>: the two requests it can make, and the test of its
  \<^verbatim>\<open>catch\<close> block that decides whether the second one is made.
\<close>

definition imagePrompt :: "jsstring \<Rightarrow> jsstring" where
  "imagePrompt prompt =
     js ''Educational illustration, clean, academic, white background. '' @ prompt"

definition primaryRequest :: "jsstring \<Rightarrow> request" where
  "primaryRequest prompt =
     ImageRequest ''gemini-3-pro-image-preview'' (imagePrompt prompt) (Some ''1K'')"

definition fallbackRequest :: "jsstring \<Rightarrow> request" where
  "fallbackRequest prompt = ImageRequest ''gemini-2.5-flash-image'' (imagePrompt prompt) None"

definition fallsBack :: "api_error \<Rightarrow> bool" where
  "fallsBack error =
     (status error = Some 403
      \<or> (case message error of
            None \<Rightarrow> False
          | Some m \<Rightarrow> includes_str m (js ''PERMISSION_DENIED''))
      \<or> status error = Some 404)"

definition generateSlideImage ::
  "env \<Rightarrow> jsstring \<Rightarrow> request list \<Rightarrow> (exn + jsstring option) \<times> request list" where
  "generateSlideImage e prompt lg =
     (case getAiClient e of
        Inl err \<Rightarrow> (Inl err, lg)
      | Inr ai \<Rightarrow>
          (let (r1, lg1) = generateContent e (primaryRequest prompt) lg
           in case r1 of
                Inr response \<Rightarrow> (Inr (extractImageFromResponse response), lg1)
              | Inl error \<Rightarrow>
                  if fallsBack error then
                    (let (r2, lg2) = generateContent e (fallbackRequest prompt) lg1
                     in case r2 of
                          Inr response \<Rightarrow> (Inr (extractImageFromResponse response), lg2)
                        | Inl fallbackError \<Rightarrow> (Inr None, lg2))
                  else (Inr None, lg1)))"

section \<open>The presentation flow\<close>

text \<open>
  The loop \<^verbatim>\<open>for (const slide of data.slides)\<close> with its accumulator
  \<^verbatim>\<open>slidesWithImages\<close>; an exception leaves the loop.
\<close>

fun fetchImages ::
  "env \<Rightarrow> slide_data list \<Rightarrow> slide_with_image list \<Rightarrow> request list
     \<Rightarrow> (exn + slide_with_image list) \<times> request list" where
  "fetchImages e [] slidesWithImages lg = (Inr slidesWithImages, lg)"
| "fetchImages e (slide # rest) slidesWithImages lg =
     (if imageDescription slide \<noteq> [] then
        (case generateSlideImage e (imageDescription slide) lg of
           (Inl err, lg') \<Rightarrow> (Inl err, lg')
         | (Inr img, lg') \<Rightarrow>
             fetchImages e rest
               (slidesWithImages @ [slide_data.extend slide (slide_with_image.fields img)]) lg')
      else
        fetchImages e rest
          (slidesWithImages @ [slide_data.extend slide (slide_with_image.fields None)]) lg)"

text \<open>
  The state of the component that the flow reads and writes. A chat message is reduced
  to what it reports; its text, identifier and time stamp are left out.
\<close>

datatype step = TOPIC | COUNT | GENERATING

datatype notice =
    AskCount jsstring
  | InvalidCount
  | Started jsstring int
  | Succeeded jsstring nat
  | Failed

record app_state =
  presentationStep :: step
  presentationTopic :: jsstring
  messages :: "notice list"
  isLoading :: bool

record generated =
  gen_data :: PresentationData
  gen_slides :: "slide_with_image list"
  gen_fileName :: jsstring
  gen_pres :: presentation

text \<open>Steps 1 to 3 of the COUNT branch, up to \<^verbatim>\<open>pres.writeFile\<close>.\<close>

definition generateDeck ::
  "env \<Rightarrow> jsstring \<Rightarrow> int \<Rightarrow> (exn + generated) \<times> request list" where
  "generateDeck e topic count =
     (case generatePresentationContent e topic count [] of
        (Inl err, lg) \<Rightarrow> (Inl err, lg)
      | (Inr data, lg) \<Rightarrow>
          (case fetchImages e (slides data) [] lg of
             (Inl err, lg') \<Rightarrow> (Inl err, lg')
           | (Inr slidesWithImages, lg') \<Rightarrow>
               (let pres = buildPresentation data slidesWithImages
                in if writeFileFails e then (Inl WriteFileError, lg')
                   else (Inr \<lparr>gen_data = data, gen_slides = slidesWithImages,
                               gen_fileName = fileName (deckTitle data), gen_pres = pres\<rparr>,
                         lg'))))"

record outcome =
  state :: app_state
  calls :: "request list"
  written :: "(jsstring \<times> presentation) option"

definition handlePresentationFlow :: "env \<Rightarrow> jsstring \<Rightarrow> app_state \<Rightarrow> outcome" where
  "handlePresentationFlow e input st =
     (case presentationStep st of
        TOPIC \<Rightarrow>
          \<lparr>state = st\<lparr>presentationTopic := input, presentationStep := COUNT,
                       messages := messages st @ [AskCount input], isLoading := False\<rparr>,
           calls = [], written = None\<rparr>
      | COUNT \<Rightarrow>
          (case validCount input of
             None \<Rightarrow>
               \<lparr>state = st\<lparr>messages := messages st @ [InvalidCount], isLoading := False\<rparr>,
                calls = [], written = None\<rparr>
           | Some count \<Rightarrow>
               (let started = messages st @ [Started (presentationTopic st) count]
                in case generateDeck e (presentationTopic st) count of
                     (Inl err, lg) \<Rightarrow>
                       \<lparr>state = st\<lparr>presentationStep := TOPIC, messages := started @ [Failed],
                                    isLoading := False\<rparr>,
                        calls = lg, written = None\<rparr>
                   | (Inr g, lg) \<Rightarrow>
                       \<lparr>state = st\<lparr>presentationStep := TOPIC, presentationTopic := [],
                                    messages := started @
                                      [Succeeded (deckTitle (gen_data g)) (length (gen_slides g))],
                                    isLoading := False\<rparr>,
                        calls = lg, written = Some (gen_fileName g, gen_pres g)\<rparr>))
      | GENERATING \<Rightarrow>
          \<lparr>state = st\<lparr>isLoading := False\<rparr>, calls = [], written = None\<rparr>)"

section \<open>Observations and sample inputs\<close>

text \<open>The texts of a list element in order, for stating that the input order is kept.\<close>

fun run_texts :: "element \<Rightarrow> jsstring list option" where
  "run_texts (TextEl (Runs rs) to) = Some (map run_text rs)"
| "run_texts (TextEl (Plain t) to) = None"
| "run_texts (ImageEl img g sz) = None"
| "run_texts (ShapeEl shape g fill) = None"

text \<open>The requests for an illustration that are a first attempt, not the second one.\<close>

fun isPrimary :: "request \<Rightarrow> bool" where
  "isPrimary (ContentRequest topic n) = False"
| "isPrimary (ImageRequest m p sz) = (m = ''gemini-3-pro-image-preview'')"

text \<open>
  Sample inputs: the slide of Scenario A of the specification (no illustration, no
  examples), the slide of Scenario C (an illustration and one example), and a slide whose
  only bullet and only example are 2000 code units long.
\<close>

definition introData :: slide_data where
  "introData = \<lparr>title = js ''Intro'', bullets = [js ''a'', js ''b''], examples = [],
     imageDescription = [], speakerNotes = []\<rparr>"

definition introSlide :: slide_with_image where
  "introSlide = slide_data.extend introData (slide_with_image.fields None)"

definition scenarioA :: PresentationData where
  "scenarioA = \<lparr>deckTitle = js ''Vectors'', slides = [introData]\<rparr>"

definition scenarioC :: slide_with_image where
  "scenarioC = \<lparr>title = js ''Sums'', bullets = [js ''a'', js ''b''], examples = [js ''2+2=4''],
     imageDescription = js ''number line'', speakerNotes = js ''say hello'',
     imageBase64 = Some (js ''data:image/png;base64,iVBORw0KGgo='')\<rparr>"

definition longSlide :: slide_with_image where
  "longSlide = \<lparr>title = js ''Long'', bullets = [replicate 2000 0x61],
     examples = [replicate 2000 0x62], imageDescription = [], speakerNotes = [],
     imageBase64 = None\<rparr>"

text \<open>
  A sample run: a service that returns five slides, rejects both requests for the
  illustration of the first, is not asked for the second (it has no description), returns
  a response without image data for the third and an image for the fourth, and for the
  fifth rejects the first request and answers the second without image data.
\<close>

definition sampleData :: PresentationData where
  "sampleData = \<lparr>deckTitle = js ''Vectors'', slides =
     [introData\<lparr>imageDescription := js ''axes''\<rparr>,
      introData,
      introData\<lparr>examples := [js ''2+2=4''], imageDescription := js ''circle''\<rparr>,
      introData\<lparr>imageDescription := js ''arrow'', speakerNotes := js ''say hello''\<rparr>,
      introData\<lparr>imageDescription := js ''grid''\<rparr>]\<rparr>"

definition sampleEnv :: env where
  "sampleEnv = \<lparr>apiKey = Some (js ''key''),
     contentService = (\<lambda>lg topic n. Inr sampleData),
     imageService = (\<lambda>lg req.
        if req = primaryRequest (js ''axes'') then Inl (ApiError (Some 403) None)
        else if req = fallbackRequest (js ''axes'')
          then Inl (ApiError (Some 500) (Some (js ''internal'')))
        else if req = primaryRequest (js ''circle'') then Inr [Part None]
        else if req = primaryRequest (js ''grid'') then Inl (ApiError (Some 404) None)
        else if req = fallbackRequest (js ''grid'') then Inr [Part None]
        else Inr [Part None, Part (Some (js ''iVBORw0KGgo=''))]),
     writeFileFails = False\<rparr>"

definition countState :: app_state where
  "countState = \<lparr>presentationStep = COUNT, presentationTopic = js ''vectors'', messages = [],
     isLoading = True\<rparr>"

section \<open>The elements of a content slide\<close>

lemma elements_contentSlide:
  "elements (contentSlide s) =
     [TextEl (Plain (title s))
        ((opts (xywh MARGIN 0.3 (SLIDE_WIDTH - (MARGIN * 2)) 0.7))
           \<lparr>fontSize := Some 24, bold := True, color := Some ''4F46E5'',
            valign := Some ''middle'', rtl := True, align := Some ''right''\<rparr>)] @
     (if truthy (imageBase64 s) then
        [ImageEl (case imageBase64 s of Some d \<Rightarrow> d | None \<Rightarrow> [])
           (xywh imageX contentY imageWidth contentHeight)
           \<lparr>sizing_type = ''contain'', sizing_w = imageWidth, sizing_h = contentHeight\<rparr>]
      else
        [ShapeEl ''rect'' (xywh imageX contentY imageWidth contentHeight) ''F1F5F9'',
         TextEl (Plain noImageText)
           ((opts (xywh imageX contentY imageWidth contentHeight))
              \<lparr>fontSize := Some 10, align := Some ''center'', color := Some ''94A3B8''\<rparr>)]) @
     [TextEl (Runs (map bulletRun (bullets s)))
        ((opts (xywh textX contentY textWidth contentHeight))
           \<lparr>lineSpacing := Some 24, valign := Some ''top'', shrinkText := True, rtl := True,
            align := Some ''right''\<rparr>)] @
     (if examples s \<noteq> [] then
        [TextEl (Plain examplesLabelText)
           ((opts (xywh MARGIN examplesY textWidth 0.3))
              \<lparr>fontSize := Some 14, bold := True, color := Some ''0F172A'', rtl := True,
               align := Some ''right''\<rparr>),
         TextEl (Runs (map exampleRun (examples s)))
           ((opts (xywh MARGIN (examplesY + 0.3) (SLIDE_WIDTH - (MARGIN * 2))
                    (examplesHeight - 0.3)))
              \<lparr>valign := Some ''top'', shrinkText := True, rtl := True,
               align := Some ''right''\<rparr>)]
      else [])"
  by (simp add: contentSlide_def Let_def addText_def addImage_def addShape_def addNotes_def
      addSlide_def)

lemma geom_opts: "geom (opts g) = g"
  by (simp add: opts_def)

lemma pos_y_xywh: "pos_y (xywh px py pw ph) = Inches py"
  by (simp add: xywh_def)

lemma width_xywh: "width (xywh px py pw ph) = Inches pw"
  by (simp add: xywh_def)

lemma run_text_bulletRun: "run_text (bulletRun b) = b"
  by (simp add: bulletRun_def)

lemma run_text_exampleRun: "run_text (exampleRun b) = b"
  by (simp add: exampleRun_def)

lemma background_contentSlide: "background (contentSlide s) = ''FFFFFF''"
  by (simp add: contentSlide_def Let_def addText_def addImage_def addShape_def addNotes_def
      addSlide_def)

lemma titleSlide_eq:
  "titleSlide data =
     \<lparr>background = ''F1F5F9'',
      elements =
        [TextEl (Plain (deckTitle data))
           ((opts \<lparr>pos_x = Inches 0.5, pos_y = Inches 2.0, width = Percent 90, height = None\<rparr>)
              \<lparr>fontSize := Some 36, align := Some ''center'', color := Some ''0F172A'',
               bold := True, rtl := True\<rparr>),
         TextEl (Plain attributionText)
           ((opts \<lparr>pos_x = Inches 0.5, pos_y = Inches 3.5, width = Percent 90, height = None\<rparr>)
              \<lparr>fontSize := Some 18, align := Some ''center'', color := Some ''475569'',
               rtl := True\<rparr>)],
      slide_notes = None\<rparr>"
  by (simp add: titleSlide_def Let_def addText_def addSlide_def)

lemma no_cover_among_content:
  "filter (\<lambda>sl. background sl = ''F1F5F9'') (map contentSlide sws) = []"
  by (induction sws) (simp_all add: background_contentSlide)

text \<open>
  The two list elements of a content slide. Both are built with \<^verbatim>\<open>shrinkText: true\<close>,
  whatever the strings are and however long; their runs carry the input strings in full;
  their boxes are \<open>28 / 5\<close> by \<open>14 / 5\<close> and \<open>9\<close> by \<open>33 / 40\<close>. This is all the code does
  for the fitting of text: the size at which a text is drawn, and whether it stays inside
  its box, is decided by the program that opens the file.
\<close>

lemma shrinkText_option:
  "(let els = elements (contentSlide s);
        k = (if truthy (imageBase64 s) then 2 else 3)
    in els ! k = TextEl (Runs (map bulletRun (bullets s)))
         ((opts (xywh textX contentY textWidth contentHeight))
            \<lparr>lineSpacing := Some 24, valign := Some ''top'', shrinkText := True, rtl := True,
             align := Some ''right''\<rparr>)
       \<and> (examples s \<noteq> [] \<longrightarrow>
            els ! (k + 2) = TextEl (Runs (map exampleRun (examples s)))
              ((opts (xywh MARGIN (examplesY + 0.3) (SLIDE_WIDTH - (MARGIN * 2))
                       (examplesHeight - 0.3)))
                 \<lparr>valign := Some ''top'', shrinkText := True, rtl := True,
                  align := Some ''right''\<rparr>))
       \<and> (\<forall>rs to. TextEl (Runs rs) to \<in> set els \<longrightarrow> shrinkText to))
   \<and> map run_text (map bulletRun (bullets s)) = bullets s
   \<and> map run_text (map exampleRun (examples s)) = examples s
   \<and> textWidth = 28 / 5 \<and> contentHeight = 14 / 5
   \<and> SLIDE_WIDTH - (MARGIN * 2) = 9 \<and> examplesHeight - 0.3 = 33 / 40"
proof -
  have "map run_text (map bulletRun (bullets s)) = bullets s"
    "map run_text (map exampleRun (examples s)) = examples s"
    by (simp_all add: comp_def run_text_bulletRun run_text_exampleRun)
  moreover have "textWidth = 28 / 5 \<and> contentHeight = 14 / 5
      \<and> SLIDE_WIDTH - (MARGIN * 2) = 9 \<and> examplesHeight - 0.3 = 33 / 40"
    by (simp add: textWidth_def contentHeight_def SLIDE_WIDTH_def MARGIN_def imageWidth_def
        examplesHeight_def examplesY_def SLIDE_HEIGHT_def contentY_def)
  ultimately show ?thesis
    by (auto simp add: elements_contentSlide Let_def)
qed

lemma shrinkText_long_strings:
  "length (hd (bullets longSlide)) = 2000 \<and> length (hd (examples longSlide)) = 2000
   \<and> elements (contentSlide longSlide) ! 3 = TextEl (Runs (map bulletRun (bullets longSlide)))
         ((opts (xywh textX contentY textWidth contentHeight))
            \<lparr>lineSpacing := Some 24, valign := Some ''top'', shrinkText := True, rtl := True,
             align := Some ''right''\<rparr>)
   \<and> elements (contentSlide longSlide) ! 5 = TextEl (Runs (map exampleRun (examples longSlide)))
              ((opts (xywh MARGIN (examplesY + 0.3) (SLIDE_WIDTH - (MARGIN * 2))
                       (examplesHeight - 0.3)))
                 \<lparr>valign := Some ''top'', shrinkText := True, rtl := True,
                  align := Some ''right''\<rparr>)"
proof -
  have h1: "examples longSlide \<noteq> []" and h2: "\<not> truthy (imageBase64 longSlide)"
    by (simp_all add: longSlide_def)
  have h3: "length (hd (bullets longSlide)) = 2000 \<and> length (hd (examples longSlide)) = 2000"
    by (simp add: longSlide_def)
  show ?thesis
    using shrinkText_option [of longSlide] h1 h2 h3 by (simp add: Let_def)
qed

section \<open>The remote service and the image loop\<close>

lemma extract_cases:
  "extractImageFromResponse ps = None
   \<or> (\<exists>d. extractImageFromResponse ps = Some (js ''data:image/png;base64,'' @ d))"
  by (induction ps) (auto split: option.splits)

lemma extract_empty:
  "\<forall>p\<in>set ps. inlineData p = None \<Longrightarrow> extractImageFromResponse ps = None"
  by (induction ps) auto

lemma extract_truthy:
  "extractImageFromResponse ps = None \<or> truthy (extractImageFromResponse ps)"
  using extract_cases [of ps] by (auto simp: js_def)

lemma getAiClient_key: "truthy (apiKey e) \<Longrightarrow> getAiClient e = Inr ()"
  by (simp add: getAiClient_def)

lemma isPrimary_requests [simp]:
  "isPrimary (primaryRequest p)" "\<not> isPrimary (fallbackRequest p)"
  by (simp_all add: primaryRequest_def fallbackRequest_def)

lemma generateSlideImage_key:
  assumes "truthy (apiKey e)"
  shows "\<exists>img ext. generateSlideImage e p lg = (Inr img, lg @ ext)
           \<and> filter isPrimary ext = [primaryRequest p]
           \<and> (img = None \<or> truthy img)"
  using assms extract_truthy
  by (auto simp: generateSlideImage_def getAiClient_key generateContent_def Let_def
      split: sum.splits)

lemma generateSlideImage_rejected:
  assumes "truthy (apiKey e)"
    and "imageService e lg (primaryRequest p) = Inl err"
    and "fallsBack err \<longrightarrow> (\<exists>err2. imageService e (lg @ [primaryRequest p]) (fallbackRequest p) = Inl err2)"
  shows "fst (generateSlideImage e p lg) = Inr None"
  using assms
  by (auto simp: generateSlideImage_def getAiClient_key generateContent_def Let_def
      split: sum.splits)

lemma generateSlideImage_empty:
  assumes "truthy (apiKey e)"
    and "imageService e lg (primaryRequest p) = Inr parts"
    and "\<forall>q\<in>set parts. inlineData q = None"
  shows "fst (generateSlideImage e p lg) = Inr None"
  using assms
  by (auto simp: generateSlideImage_def getAiClient_key generateContent_def Let_def extract_empty
      split: sum.splits)

lemma truncate_extend: "slide_data.truncate (slide_data.extend s (slide_with_image.fields img)) = s"
  by (simp add: slide_data.truncate_def slide_data.extend_def slide_with_image.fields_def)

lemma imageBase64_extend: "imageBase64 (slide_data.extend s (slide_with_image.fields img)) = img"
  by (simp add: slide_data.extend_def slide_with_image.fields_def)

lemma fetchImages_key:
  assumes "truthy (apiKey e)"
  shows "\<exists>out ext. fetchImages e sl acc lg = (Inr (acc @ out), lg @ ext)
           \<and> map slide_data.truncate out = sl
           \<and> filter isPrimary ext
               = map primaryRequest (filter (\<lambda>d. d \<noteq> []) (map imageDescription sl))
           \<and> (\<forall>s\<in>set out. imageBase64 s = None \<or> truthy (imageBase64 s))
           \<and> (\<forall>i<length sl. imageDescription (sl ! i) = [] \<longrightarrow> imageBase64 (out ! i) = None)"
proof (induction sl arbitrary: acc lg)
  case Nil
  show ?case by simp
next
  case (Cons slide rest)
  show ?case
  proof (cases "imageDescription slide = []")
    case True
    let ?x = "slide_data.extend slide (slide_with_image.fields None)"
    from Cons.IH [of "acc @ [?x]" lg] obtain out ext where
      r: "fetchImages e rest (acc @ [?x]) lg = (Inr ((acc @ [?x]) @ out), lg @ ext)"
      and t: "map slide_data.truncate out = rest"
      and f: "filter isPrimary ext
               = map primaryRequest (filter (\<lambda>d. d \<noteq> []) (map imageDescription rest))"
      and i: "\<forall>s\<in>set out. imageBase64 s = None \<or> truthy (imageBase64 s)"
      and n: "\<forall>i<length rest. imageDescription (rest ! i) = [] \<longrightarrow> imageBase64 (out ! i) = None"
      by blast
    have a: "fetchImages e (slide # rest) acc lg = (Inr (acc @ (?x # out)), lg @ ext)"
      using True r by simp
    have b: "map slide_data.truncate (?x # out) = slide # rest"
      using t by (simp add: truncate_extend)
    have c: "\<forall>s\<in>set (?x # out). imageBase64 s = None \<or> truthy (imageBase64 s)"
      using i by (simp add: imageBase64_extend)
    have d: "\<forall>i<length (slide # rest). imageDescription ((slide # rest) ! i) = []
        \<longrightarrow> imageBase64 ((?x # out) ! i) = None"
      using n by (auto simp: nth_Cons imageBase64_extend split: nat.splits)
    have f': "filter isPrimary ext
        = map primaryRequest (filter (\<lambda>d. d \<noteq> []) (map imageDescription (slide # rest)))"
      using f True by simp
    show ?thesis
      by (rule exI [of _ "?x # out"], rule exI [of _ ext]) (intro conjI a b f' c d)
  next
    case False
    from generateSlideImage_key [OF assms, of "imageDescription slide" lg] obtain img ext1 where
      g: "generateSlideImage e (imageDescription slide) lg = (Inr img, lg @ ext1)"
      and f1: "filter isPrimary ext1 = [primaryRequest (imageDescription slide)]"
      and i1: "img = None \<or> truthy img"
      by blast
    let ?x = "slide_data.extend slide (slide_with_image.fields img)"
    from Cons.IH [of "acc @ [?x]" "lg @ ext1"] obtain out ext where
      r: "fetchImages e rest (acc @ [?x]) (lg @ ext1) = (Inr ((acc @ [?x]) @ out), (lg @ ext1) @ ext)"
      and t: "map slide_data.truncate out = rest"
      and f: "filter isPrimary ext
               = map primaryRequest (filter (\<lambda>d. d \<noteq> []) (map imageDescription rest))"
      and i: "\<forall>s\<in>set out. imageBase64 s = None \<or> truthy (imageBase64 s)"
      and n: "\<forall>i<length rest. imageDescription (rest ! i) = [] \<longrightarrow> imageBase64 (out ! i) = None"
      by blast
    have a: "fetchImages e (slide # rest) acc lg = (Inr (acc @ (?x # out)), lg @ (ext1 @ ext))"
      using False g r by simp
    have b: "map slide_data.truncate (?x # out) = slide # rest"
      using t by (simp add: truncate_extend)
    have c: "\<forall>s\<in>set (?x # out). imageBase64 s = None \<or> truthy (imageBase64 s)"
      using i i1 by (auto simp: imageBase64_extend)
    have d: "\<forall>i<length (slide # rest). imageDescription ((slide # rest) ! i) = []
        \<longrightarrow> imageBase64 ((?x # out) ! i) = None"
      using n False by (auto simp: nth_Cons split: nat.splits)
    have f': "filter isPrimary (ext1 @ ext)
        = map primaryRequest (filter (\<lambda>d. d \<noteq> []) (map imageDescription (slide # rest)))"
      using f f1 False by simp
    show ?thesis
      by (rule exI [of _ "?x # out"], rule exI [of _ "ext1 @ ext"]) (intro conjI a b f' c d)
  qed
qed

lemma fetchImages_no_description:
  "\<forall>s\<in>set sl. imageDescription s = [] \<Longrightarrow>
   fetchImages e sl acc lg
     = (Inr (acc @ map (\<lambda>s. slide_data.extend s (slide_with_image.fields None)) sl), lg)"
  by (induction sl arbitrary: acc) simp_all


lemma generateSlideImage_result:
  assumes "truthy (apiKey e)"
  shows "\<exists>ext. generateSlideImage e p lg
           = (Inr (case imageService e lg (primaryRequest p) of
                     Inr parts \<Rightarrow> extractImageFromResponse parts
                   | Inl err \<Rightarrow>
                       if fallsBack err then
                         (case imageService e (lg @ [primaryRequest p]) (fallbackRequest p) of
                            Inr parts \<Rightarrow> extractImageFromResponse parts
                          | Inl err2 \<Rightarrow> None)
                       else None), lg @ ext)"
  using assms
  by (auto simp: generateSlideImage_def getAiClient_key generateContent_def Let_def
      split: sum.splits)

lemma fetchImages_append:
  "fetchImages e (pre @ rest) acc lg
     = (case fetchImages e pre acc lg of
          (Inl err, l) \<Rightarrow> (Inl err, l)
        | (Inr mid, l) \<Rightarrow> fetchImages e rest mid l)"
  by (induction pre arbitrary: acc lg) (auto split: prod.splits sum.splits)

lemma fetchImages_nth:
  assumes key: "truthy (apiKey e)"
    and i: "i < length sl"
    and run: "fetchImages e sl [] lg = (Inr out, l')"
  shows "\<exists>mid lgi. fetchImages e (take i sl) [] lg = (Inr mid, lgi)
           \<and> imageBase64 (out ! i)
             = (if imageDescription (sl ! i) = [] then None
                else case imageService e lgi (primaryRequest (imageDescription (sl ! i))) of
                       Inr parts \<Rightarrow> extractImageFromResponse parts
                     | Inl err \<Rightarrow>
                         if fallsBack err then
                           (case imageService e (lgi @ [primaryRequest (imageDescription (sl ! i))])
                                   (fallbackRequest (imageDescription (sl ! i))) of
                              Inr parts \<Rightarrow> extractImageFromResponse parts
                            | Inl err2 \<Rightarrow> None)
                         else None)"
proof -
  let ?slide = "sl ! i" and ?post = "drop (Suc i) sl"
  let ?R = "\<lambda>lgi. if imageDescription ?slide = [] then None
                else case imageService e lgi (primaryRequest (imageDescription ?slide)) of
                       Inr parts \<Rightarrow> extractImageFromResponse parts
                     | Inl err \<Rightarrow>
                         if fallsBack err then
                           (case imageService e (lgi @ [primaryRequest (imageDescription ?slide)])
                                   (fallbackRequest (imageDescription ?slide)) of
                              Inr parts \<Rightarrow> extractImageFromResponse parts
                            | Inl err2 \<Rightarrow> None)
                         else None"
  have split: "sl = take i sl @ ?slide # ?post"
    using i by (simp add: id_take_nth_drop)
  from fetchImages_key [OF key, of "take i sl" "[]" lg] obtain mid ext0 where
    pre: "fetchImages e (take i sl) [] lg = (Inr mid, lg @ ext0)"
    and tm: "map slide_data.truncate mid = take i sl"
    by auto
  have lm: "length mid = i"
    using tm i by (metis length_map length_take min.absorb2 less_imp_le)
  have rest: "fetchImages e sl [] lg = fetchImages e (?slide # ?post) mid (lg @ ext0)"
    using fetchImages_append [of e "take i sl" "?slide # ?post" "[]" lg] pre split by simp
  have "\<exists>lgn. fetchImages e (?slide # ?post) mid (lg @ ext0)
          = fetchImages e ?post
              (mid @ [slide_data.extend ?slide (slide_with_image.fields (?R (lg @ ext0)))]) lgn"
  proof (cases "imageDescription ?slide = []")
    case True
    then show ?thesis by auto
  next
    case False
    from generateSlideImage_result [OF key, of "imageDescription ?slide" "lg @ ext0"]
    obtain ext1 where
      "generateSlideImage e (imageDescription ?slide) (lg @ ext0) = (Inr (?R (lg @ ext0)), (lg @ ext0) @ ext1)"
      using False by auto
    then show ?thesis
      using False by auto
  qed
  then obtain lgn where step: "fetchImages e (?slide # ?post) mid (lg @ ext0)
          = fetchImages e ?post
              (mid @ [slide_data.extend ?slide (slide_with_image.fields (?R (lg @ ext0)))]) lgn"
    by blast
  let ?x = "slide_data.extend ?slide (slide_with_image.fields (?R (lg @ ext0)))"
  from fetchImages_key [OF key, of ?post "mid @ [?x]" lgn] obtain out2 ext2 where
    "fetchImages e ?post (mid @ [?x]) lgn = (Inr ((mid @ [?x]) @ out2), lgn @ ext2)"
    by auto
  with rest step run have "out = (mid @ [?x]) @ out2"
    by simp
  then have "out ! i = ?x"
    using lm by (simp add: nth_append)
  then have "imageBase64 (out ! i) = ?R (lg @ ext0)"
    by (simp add: imageBase64_extend)
  with pre show ?thesis
    by blast
qed

lemma generateDeck_ok:
  assumes c: "contentService e [] topic n = Inr data"
    and k: "truthy (apiKey e)"
    and w: "\<not> writeFileFails e"
  shows "\<exists>sws ext. generateDeck e topic n
            = (Inr \<lparr>gen_data = data, gen_slides = sws, gen_fileName = fileName (deckTitle data),
                    gen_pres = buildPresentation data sws\<rparr>, ContentRequest topic n # ext)
           \<and> map slide_data.truncate sws = slides data
           \<and> filter isPrimary ext
               = map primaryRequest (filter (\<lambda>d. d \<noteq> []) (map imageDescription (slides data)))"
proof -
  from fetchImages_key [OF k, of "slides data" "[]" "[ContentRequest topic n]"]
  obtain out ext where
    f: "fetchImages e (slides data) [] [ContentRequest topic n]
          = (Inr out, [ContentRequest topic n] @ ext)"
    and t: "map slide_data.truncate out = slides data"
    and p: "filter isPrimary ext
               = map primaryRequest (filter (\<lambda>d. d \<noteq> []) (map imageDescription (slides data)))"
    by auto
  have "generateDeck e topic n
            = (Inr \<lparr>gen_data = data, gen_slides = out, gen_fileName = fileName (deckTitle data),
                    gen_pres = buildPresentation data out\<rparr>, ContentRequest topic n # ext)"
    using c k w f
    by (simp add: generateDeck_def generatePresentationContent_def getAiClient_key Let_def)
  with t p show ?thesis by blast
qed

lemma generateDeck_calls:
  assumes k: "truthy (apiKey e)"
  shows "\<exists>r ext. generateDeck e topic n = (r, ContentRequest topic n # ext)"
proof (cases "contentService e [] topic n")
  case (Inl err)
  then show ?thesis
    using k by (simp add: generateDeck_def generatePresentationContent_def getAiClient_key)
next
  case (Inr data)
  from fetchImages_key [OF k, of "slides data" "[]" "[ContentRequest topic n]"]
  obtain out ext where
    f: "fetchImages e (slides data) [] [ContentRequest topic n]
          = (Inr out, [ContentRequest topic n] @ ext)"
    by auto
  show ?thesis
    using Inr k f
    by (simp add: generateDeck_def generatePresentationContent_def getAiClient_key Let_def)
qed

lemma generateDeck_fetch:
  assumes c: "contentService e [] topic n = Inr data"
    and k: "truthy (apiKey e)"
    and w: "\<not> writeFileFails e"
  shows "\<exists>sws ext. generateDeck e topic n
            = (Inr \<lparr>gen_data = data, gen_slides = sws, gen_fileName = fileName (deckTitle data),
                    gen_pres = buildPresentation data sws\<rparr>, ContentRequest topic n # ext)
           \<and> map slide_data.truncate sws = slides data
           \<and> fetchImages e (slides data) [] [ContentRequest topic n]
               = (Inr sws, ContentRequest topic n # ext)"
proof -
  from fetchImages_key [OF k, of "slides data" "[]" "[ContentRequest topic n]"]
  obtain out ext where
    f: "fetchImages e (slides data) [] [ContentRequest topic n]
          = (Inr out, [ContentRequest topic n] @ ext)"
    and t: "map slide_data.truncate out = slides data"
    by auto
  have "generateDeck e topic n
            = (Inr \<lparr>gen_data = data, gen_slides = out, gen_fileName = fileName (deckTitle data),
                    gen_pres = buildPresentation data out\<rparr>, ContentRequest topic n # ext)"
    using c k w f
    by (simp add: generateDeck_def generatePresentationContent_def getAiClient_key Let_def)
  with t f show ?thesis by auto
qed

lemma placeholder_elements:
  "imageBase64 s = None \<Longrightarrow>
   take 2 (drop 1 (elements (contentSlide s)))
     = [ShapeEl ''rect'' (xywh imageX contentY imageWidth contentHeight) ''F1F5F9'',
        TextEl (Plain noImageText)
          ((opts (xywh imageX contentY imageWidth contentHeight))
             \<lparr>fontSize := Some 10, align := Some ''center'', color := Some ''94A3B8''\<rparr>)]"
  by (simp add: elements_contentSlide)

lemma placeholder_in_deck:
  "i < length sws \<Longrightarrow> imageBase64 (sws ! i) = None \<Longrightarrow>
   take 2 (drop 1 (elements (pres_slides (buildPresentation data sws) ! (i + 1))))
     = [ShapeEl ''rect'' (xywh imageX contentY imageWidth contentHeight) ''F1F5F9'',
        TextEl (Plain noImageText)
          ((opts (xywh imageX contentY imageWidth contentHeight))
             \<lparr>fontSize := Some 10, align := Some ''center'', color := Some ''94A3B8''\<rparr>)]"
  using placeholder_elements [of "sws ! i"] by (simp add: buildPresentation_def)

lemma flow_rejected:
  "presentationStep st = COUNT \<Longrightarrow> validCount input = None \<Longrightarrow>
   handlePresentationFlow e input st
     = \<lparr>state = st\<lparr>messages := messages st @ [InvalidCount], isLoading := False\<rparr>,
        calls = [], written = None\<rparr>"
  by (simp add: handlePresentationFlow_def)

lemma flow_accepted:
  assumes "presentationStep st = COUNT" and "validCount input = Some n"
  shows "messages (state (handlePresentationFlow e input st)) ! length (messages st)
           = Started (presentationTopic st) n
         \<and> calls (handlePresentationFlow e input st)
           = snd (generateDeck e (presentationTopic st) n)"
  using assms
  by (simp add: handlePresentationFlow_def Let_def nth_append split: prod.splits sum.splits)

section \<open>Reading the slide count\<close>

lemma validCount_iff:
  "validCount input = Some n \<longleftrightarrow> parseInt input = Some n \<and> 1 \<le> n \<and> n \<le> 20"
  by (auto simp: validCount_def split: option.splits)

lemma isRadixDigit_10: "isRadixDigit 10 c \<longleftrightarrow> 0x30 \<le> c \<and> c \<le> 0x39"
  by (auto simp: isRadixDigit_def digitValue_def word_le_nat_alt)

lemma digit_not_space: "0x30 \<le> c \<Longrightarrow> c \<le> 0x39 \<Longrightarrow> \<not> isWhiteSpace c"
  by (auto simp: isWhiteSpace_def word_le_nat_alt)

lemma digit_not_sign: "0x30 \<le> c \<Longrightarrow> c \<le> 0x39 \<Longrightarrow> c \<noteq> 0x2B \<and> c \<noteq> 0x2D \<and> c \<noteq> 0x78 \<and> c \<noteq> 0x58"
  for c :: "16 word"
  by (auto simp: word_le_nat_alt)

lemma takeWhile_digits:
  assumes "\<forall>c\<in>set ds. 0x30 \<le> c \<and> c \<le> 0x39"
    and "rest = [] \<or> \<not> (0x30 \<le> hd rest \<and> hd rest \<le> 0x39)"
  shows "takeWhile (isRadixDigit 10) (ds @ rest) = ds"
proof -
  have "takeWhile (isRadixDigit 10) rest = []"
    using assms(2) by (cases rest) (auto simp: isRadixDigit_10)
  moreover have "takeWhile (isRadixDigit 10) (ds @ rest) = ds @ takeWhile (isRadixDigit 10) rest"
    using assms(1) by (intro takeWhile_append2) (simp add: isRadixDigit_10)
  ultimately show ?thesis by simp
qed

lemma mathInt_zero: "mathInt 10 [0x30] = 0"
  by (simp add: mathInt_def digitValue_def)

lemma parseInt_digits:
  assumes ne: "ds \<noteq> []"
    and dig: "\<forall>c\<in>set ds. 0x30 \<le> c \<and> c \<le> 0x39"
    and stop: "rest = [] \<or> \<not> (0x30 \<le> hd rest \<and> hd rest \<le> 0x39)"
    and pos: "1 \<le> mathInt 10 ds"
  shows "parseInt (ds @ rest) = Some (int (mathInt 10 ds))"
proof -
  from ne obtain d ds' where ds: "ds = d # ds'"
    by (cases ds) auto
  have d: "0x30 \<le> d" "d \<le> 0x39"
    using dig ds by auto
  have nospace: "dropWhile isWhiteSpace (ds @ rest) = ds @ rest"
    using digit_not_space [OF d] ds by simp
  have nosign: "d \<noteq> 0x2B" "d \<noteq> 0x2D"
    using digit_not_sign [OF d] by auto
  have nohex: "take 2 (ds @ rest) \<noteq> js ''0x''" "take 2 (ds @ rest) \<noteq> js ''0X''"
  proof -
    show "take 2 (ds @ rest) \<noteq> js ''0x''"
    proof (cases ds')
      case Nil
      then show ?thesis
        using pos ds mathInt_zero by (cases rest) (auto simp: js_def)
    next
      case (Cons d2 ds2)
      then have "0x30 \<le> d2 \<and> d2 \<le> 0x39"
        using dig ds by auto
      then have "d2 \<noteq> 0x78"
        using digit_not_sign by blast
      then show ?thesis
        using ds Cons by (simp add: js_def)
    qed
    show "take 2 (ds @ rest) \<noteq> js ''0X''"
    proof (cases ds')
      case Nil
      then show ?thesis
        using pos ds mathInt_zero by (cases rest) (auto simp: js_def)
    next
      case (Cons d2 ds2)
      then have "0x30 \<le> d2 \<and> d2 \<le> 0x39"
        using dig ds by auto
      then have "d2 \<noteq> 0x58"
        using digit_not_sign by blast
      then show ?thesis
        using ds Cons by (simp add: js_def)
    qed
  qed
  have hd: "hd (ds @ rest) = d" "ds @ rest \<noteq> []"
    using ds by simp_all
  show ?thesis
    unfolding parseInt_def nospace Let_def
    using hd nosign nohex takeWhile_digits [OF dig stop] ne
    by simp
qed

lemma baseName_map:
  "baseName t = map (\<lambda>c. if isAlnum c then (if 0x41 \<le> c \<and> c \<le> 0x5A then c + 0x20 else c) else 0x5F) t"
  by (simp add: baseName_def toLowerCase_def replaceNonAlnum_def)

lemma sample_facts:
  "truthy (apiKey sampleEnv)" "\<not> writeFileFails sampleEnv"
  "contentService sampleEnv [] t n = Inr sampleData"
  by (simp_all add: sampleEnv_def js_def)

lemma sample_axes:
  "imageService sampleEnv lg (primaryRequest (js ''axes'')) = Inl (ApiError (Some 403) None)"
  "imageService sampleEnv (lg @ [primaryRequest (js ''axes'')]) (fallbackRequest (js ''axes''))
     = Inl (ApiError (Some 500) (Some (js ''internal'')))"
  by (simp_all add: sampleEnv_def primaryRequest_def fallbackRequest_def)

lemma sample_circle:
  "imageService sampleEnv lg (primaryRequest (js ''circle'')) = Inr [Part None]"
  by (simp add: sampleEnv_def primaryRequest_def fallbackRequest_def imagePrompt_def js_def)

lemma sample_grid:
  "imageService sampleEnv lg (primaryRequest (js ''grid'')) = Inl (ApiError (Some 404) None)"
  "imageService sampleEnv (lg @ [primaryRequest (js ''grid'')]) (fallbackRequest (js ''grid''))
     = Inr [Part None]"
  by (simp_all add: sampleEnv_def primaryRequest_def fallbackRequest_def imagePrompt_def js_def)

lemma sample_first:
  "0 < length (slides sampleData)" "imageDescription (slides sampleData ! 0) = js ''axes''"
  "js ''axes'' \<noteq> []"
  by (simp_all add: sampleData_def introData_def js_def)

lemma sample_deck_images: "map imageBase64 (case fst (generateDeck sampleEnv (js ''vectors'') 4) of Inr g \<Rightarrow> gen_slides g | Inl x \<Rightarrow> [])
  = [None, None, None, Some (js ''data:image/png;base64,iVBORw0KGgo=''), None]"
  by (simp add: generateDeck_def generatePresentationContent_def getAiClient_def sampleEnv_def sampleData_def introData_def
    generateSlideImage_def generateContent_def primaryRequest_def fallbackRequest_def imagePrompt_def fallsBack_def Let_def js_def
    slide_data.extend_def slide_with_image.fields_def)

section \<open>The claims\<close>

text \<open>
  C1 (placeholder parity). When a slide has an illustration, the second element of the
  slide is the image, with the box \<open>x = MARGIN\<close>, \<open>y = contentY\<close>, \<open>w = imageWidth\<close>,
  \<open>h = contentHeight\<close>. When the same slide has none, the second and third elements are
  the placeholder rectangle and its caption, both with that same box. The elements before
  and after the image column are the same in both cases.
\<close>

theorem placeholder_parity:
  "imageBase64 s = Some d \<Longrightarrow> d \<noteq> [] \<Longrightarrow>
   (let box = xywh MARGIN contentY imageWidth contentHeight;
        present = elements (contentSlide s);
        absent = elements (contentSlide (s\<lparr>imageBase64 := None\<rparr>))
    in present ! 1 = ImageEl d box
                       \<lparr>sizing_type = ''contain'', sizing_w = imageWidth, sizing_h = contentHeight\<rparr>
       \<and> absent ! 1 = ShapeEl ''rect'' box ''F1F5F9''
       \<and> absent ! 2 = TextEl (Plain noImageText)
            ((opts box)\<lparr>fontSize := Some 10, align := Some ''center'', color := Some ''94A3B8''\<rparr>)
       \<and> geometry_of (present ! 1) = box
       \<and> geometry_of (absent ! 1) = box
       \<and> geometry_of (absent ! 2) = box
       \<and> take 1 present = take 1 absent
       \<and> drop 2 present = drop 3 absent)"
  by (simp add: elements_contentSlide Let_def imageX_def geom_opts)

theorem placeholder_parity_witness:
  "geometry_of (elements (contentSlide scenarioC) ! 1)
     = \<lparr>pos_x = Inches (1 / 2), pos_y = Inches (11 / 10), width = Inches (16 / 5),
        height = Some (Inches (14 / 5))\<rparr>
   \<and> geometry_of (elements (contentSlide (scenarioC\<lparr>imageBase64 := None\<rparr>)) ! 1)
     = \<lparr>pos_x = Inches (1 / 2), pos_y = Inches (11 / 10), width = Inches (16 / 5),
        height = Some (Inches (14 / 5))\<rparr>
   \<and> geometry_of (elements (contentSlide (scenarioC\<lparr>imageBase64 := None\<rparr>)) ! 2)
     = \<lparr>pos_x = Inches (1 / 2), pos_y = Inches (11 / 10), width = Inches (16 / 5),
        height = Some (Inches (14 / 5))\<rparr>"
proof -
  have h1: "imageBase64 scenarioC = Some (js ''data:image/png;base64,iVBORw0KGgo='')"
    by (simp add: scenarioC_def)
  have h2: "js ''data:image/png;base64,iVBORw0KGgo='' \<noteq> []"
    by (simp add: js_def)
  show ?thesis
    using placeholder_parity [OF h1 h2]
    by (simp add: Let_def xywh_def MARGIN_def contentY_def imageWidth_def contentHeight_def
        geom_opts)
qed

text \<open>
  C2 (file naming), as the code has it. The base name of the exported file is the deck
  title with every code unit outside \<open>a-z\<close>, \<open>A-Z\<close>, \<open>0-9\<close> replaced by an underscore
  and the letters in lower case. It is as long as the title, so it is empty only for the
  empty title; a title with no such letter or digit gives that many underscores.
\<close>

theorem baseName_replaces:
  "baseName t
     = map (\<lambda>c. if isAlnum c then (if 0x41 \<le> c \<and> c \<le> 0x5A then c + 0x20 else c) else 0x5F) t
   \<and> length (baseName t) = length t
   \<and> (baseName t = [] \<longleftrightarrow> t = [])
   \<and> ((\<forall>c\<in>set t. \<not> isAlnum c) \<longrightarrow> baseName t = replicate (length t) 0x5F)
   \<and> fileName t = baseName t @ js ''.pptx''"
proof -
  have "(\<forall>c\<in>set t. \<not> isAlnum c) \<longrightarrow> baseName t = replicate (length t) 0x5F"
    by (induction t) (simp_all add: baseName_map)
  then show ?thesis
    by (simp add: baseName_map fileName_def)
qed

theorem baseName_replaces_witness:
  "baseName [0x645, 0x62A, 0x62C, 0x647] = [0x5F, 0x5F, 0x5F, 0x5F]
   \<and> baseName [0x645, 0x62A, 0x62C, 0x647] \<noteq> []"
proof -
  have h: "\<forall>c\<in>set [0x645, 0x62A, 0x62C, 0x647 :: 16 word]. \<not> isAlnum c"
    by (simp add: isAlnum_def)
  show ?thesis
    using baseName_replaces [of "[0x645, 0x62A, 0x62C, 0x647]"] h by simp
qed

text \<open>
  C2 as stated fails: the title of three Arabic letters has no basic letter or digit, and
  its base name is \<open>___\<close>, not the empty string.
\<close>

theorem baseName_counterexample:
  "\<not> isAlnum 0x645 \<and> \<not> isAlnum 0x631 \<and> \<not> isAlnum 0x62D
   \<and> baseName [0x645, 0x631, 0x62D] = js ''___''
   \<and> baseName [0x645, 0x631, 0x62D] \<noteq> []"
  by (simp add: isAlnum_def baseName_def toLowerCase_def replaceNonAlnum_def js_def)

text \<open>
  C4 (examples omission). The elements of a content slide that lie in the examples band,
  that is at or below \<open>examplesY\<close>, are none when \<open>examples\<close> is empty, and otherwise
  exactly two: the label, then one list element whose entries are the examples, each
  with a number bullet. The slide has three elements above the band with an illustration
  and four without.
\<close>

theorem examples_omission:
  "filter (\<lambda>el. case pos_y (geometry_of el) of Inches py \<Rightarrow> examplesY \<le> py | Percent p \<Rightarrow> False)
     (elements (contentSlide s))
   = (if examples s = [] then []
      else [TextEl (Plain examplesLabelText)
              ((opts (xywh MARGIN examplesY textWidth 0.3))
                 \<lparr>fontSize := Some 14, bold := True, color := Some ''0F172A'', rtl := True,
                  align := Some ''right''\<rparr>),
            TextEl (Runs (map exampleRun (examples s)))
              ((opts (xywh MARGIN (examplesY + 0.3) (SLIDE_WIDTH - (MARGIN * 2))
                       (examplesHeight - 0.3)))
                 \<lparr>valign := Some ''top'', shrinkText := True, rtl := True,
                  align := Some ''right''\<rparr>)])
   \<and> length (elements (contentSlide s))
     = (if truthy (imageBase64 s) then 3 else 4) + (if examples s = [] then 0 else 2)
   \<and> run_bullet (run_opts (exampleRun e)) = BulletNumber"
  by (simp add: elements_contentSlide geom_opts pos_y_xywh exampleRun_def examplesY_def
      contentY_def contentHeight_def)

theorem examples_omission_witness:
  "length (elements (contentSlide introSlide)) = 4
   \<and> filter (\<lambda>el. case pos_y (geometry_of el) of Inches py \<Rightarrow> examplesY \<le> py | Percent p \<Rightarrow> False)
       (elements (contentSlide introSlide)) = []
   \<and> length (elements (contentSlide scenarioC)) = 5
   \<and> length (filter (\<lambda>el. case pos_y (geometry_of el) of Inches py \<Rightarrow> examplesY \<le> py
                           | Percent p \<Rightarrow> False)
       (elements (contentSlide scenarioC))) = 2"
proof -
  have a: "examples introSlide = []" "\<not> truthy (imageBase64 introSlide)"
    by (simp_all add: introSlide_def introData_def slide_data.extend_def
        slide_with_image.fields_def)
  have c: "examples scenarioC \<noteq> []" "truthy (imageBase64 scenarioC)"
    by (simp_all add: scenarioC_def js_def)
  show ?thesis
    using examples_omission [of introSlide] examples_omission [of scenarioC] a c by simp
qed

text \<open>
  C5 (deck structure and order). The presentation built from the data and the slides
  with their images is one title slide followed by the content slides of the slides, one
  each and in the same order. The first slide has the cover background and two texts, the
  deck title and the attribution; it is the only slide with that background, a content
  slide having a white one. The content slides start, in order, with the titles of the
  slides. In a content slide the list elements are, in this order, the bullets in their
  input order and then, when there are any, the examples in theirs.
\<close>

theorem deck_structure:
  "(let pres = buildPresentation data slidesWithImages
    in pres_slides pres = titleSlide data # map contentSlide slidesWithImages
       \<and> length (pres_slides pres) = 1 + length slidesWithImages
       \<and> (\<forall>i<length slidesWithImages.
             pres_slides pres ! (i + 1) = contentSlide (slidesWithImages ! i))
       \<and> hd (pres_slides pres)
           = \<lparr>background = ''F1F5F9'',
              elements =
                [TextEl (Plain (deckTitle data))
                   ((opts \<lparr>pos_x = Inches 0.5, pos_y = Inches 2.0, width = Percent 90,
                            height = None\<rparr>)
                      \<lparr>fontSize := Some 36, align := Some ''center'', color := Some ''0F172A'',
                       bold := True, rtl := True\<rparr>),
                 TextEl (Plain attributionText)
                   ((opts \<lparr>pos_x = Inches 0.5, pos_y = Inches 3.5, width = Percent 90,
                            height = None\<rparr>)
                      \<lparr>fontSize := Some 18, align := Some ''center'', color := Some ''475569'',
                       rtl := True\<rparr>)],
              slide_notes = None\<rparr>
       \<and> filter (\<lambda>sl. background sl = ''F1F5F9'') (pres_slides pres) = [hd (pres_slides pres)]
       \<and> map (\<lambda>sl. hd (elements sl)) (tl (pres_slides pres))
           = map (\<lambda>s. TextEl (Plain (title s))
                    ((opts (xywh MARGIN 0.3 (SLIDE_WIDTH - (MARGIN * 2)) 0.7))
                       \<lparr>fontSize := Some 24, bold := True, color := Some ''4F46E5'',
                        valign := Some ''middle'', rtl := True, align := Some ''right''\<rparr>))
               slidesWithImages)
   \<and> List.map_filter run_texts (elements (contentSlide s))
     = bullets s # (if examples s = [] then [] else [examples s])
   \<and> background (contentSlide s) = ''FFFFFF''"
proof -
  have t: "background (titleSlide data) = ''F1F5F9''"
    by (simp add: titleSlide_eq)
  have h: "map (\<lambda>sl. hd (elements sl)) (map contentSlide slidesWithImages)
           = map (\<lambda>s. TextEl (Plain (title s))
                    ((opts (xywh MARGIN 0.3 (SLIDE_WIDTH - (MARGIN * 2)) 0.7))
                       \<lparr>fontSize := Some 24, bold := True, color := Some ''4F46E5'',
                        valign := Some ''middle'', rtl := True, align := Some ''right''\<rparr>))
               slidesWithImages"
    by (simp add: elements_contentSlide)
  have r: "List.map_filter run_texts (elements (contentSlide s))
     = bullets s # (if examples s = [] then [] else [examples s])"
    by (simp add: elements_contentSlide comp_def run_text_bulletRun run_text_exampleRun)
  show ?thesis
    unfolding Let_def buildPresentation_def
    using t h r no_cover_among_content [of slidesWithImages]
    by (simp add: background_contentSlide titleSlide_eq)
qed

theorem deck_structure_witness:
  "length (pres_slides (buildPresentation scenarioA [introSlide, scenarioC])) = 3
   \<and> pres_slides (buildPresentation scenarioA [introSlide, scenarioC]) ! 1
       = contentSlide introSlide
   \<and> pres_slides (buildPresentation scenarioA [introSlide, scenarioC]) ! 2
       = contentSlide scenarioC
   \<and> hd (pres_slides (buildPresentation scenarioA [introSlide, scenarioC]))
       = \<lparr>background = ''F1F5F9'',
          elements =
            [TextEl (Plain (js ''Vectors''))
               ((opts \<lparr>pos_x = Inches 0.5, pos_y = Inches 2.0, width = Percent 90,
                        height = None\<rparr>)
                  \<lparr>fontSize := Some 36, align := Some ''center'', color := Some ''0F172A'',
                   bold := True, rtl := True\<rparr>),
             TextEl (Plain attributionText)
               ((opts \<lparr>pos_x = Inches 0.5, pos_y = Inches 3.5, width = Percent 90,
                        height = None\<rparr>)
                  \<lparr>fontSize := Some 18, align := Some ''center'', color := Some ''475569'',
                   rtl := True\<rparr>)],
          slide_notes = None\<rparr>
   \<and> List.map_filter run_texts (elements (contentSlide scenarioC))
       = [[js ''a'', js ''b''], [js ''2+2=4'']]"
proof -
  have h0: "(0::nat) < length [introSlide, scenarioC]"
    and h1: "(1::nat) < length [introSlide, scenarioC]"
    by simp_all
  have e: "examples scenarioC \<noteq> []" "bullets scenarioC = [js ''a'', js ''b'']"
      "examples scenarioC = [js ''2+2=4'']" "deckTitle scenarioA = js ''Vectors''"
    by (simp_all add: scenarioC_def scenarioA_def js_def)
  show ?thesis
    using deck_structure [of scenarioA "[introSlide, scenarioC]" scenarioC] h0 h1 e
    by (simp add: Let_def buildPresentation_def)
qed

text \<open>
  C6 (illustration failure). With an API key, which the flow has whenever the text
  content was generated: the image loop returns a slide for every input slide, in order,
  and never an exception; its first-attempt requests are those of the slides with a
  description, in slide order. The illustration stored for the slide at a position is
  what the service answered to the requests for that slide, made after the slides before
  it were done: the image data of the first answer, or of the second answer when the
  first was a rejection that falls back, and none when there is no such data. So a request
  that is rejected, with the second attempt rejected or answered without image data when
  one is made, gives no illustration, and so does a first answer without image data. A
  slide without illustration gets the placeholder rectangle and caption. Once the text
  content is there and the file can be written, the deck is generated from the slides
  the loop returned, whatever the image service answers, with the placeholder on every
  slide that has no illustration.
\<close>

theorem illustration_failure_degrades:
  assumes key: "truthy (apiKey e)"
  shows "(\<exists>out ext. fetchImages e sl [] lg = (Inr out, lg @ ext)
            \<and> map slide_data.truncate out = sl
            \<and> filter isPrimary ext
                = map primaryRequest (filter (\<lambda>d. d \<noteq> []) (map imageDescription sl))
            \<and> (\<forall>s\<in>set out. imageBase64 s = None \<or> truthy (imageBase64 s))
            \<and> (\<forall>i<length sl. \<exists>mid lgi.
                  fetchImages e (take i sl) [] lg = (Inr mid, lgi)
                  \<and> imageBase64 (out ! i)
                    = (if imageDescription (sl ! i) = [] then None
                       else case imageService e lgi (primaryRequest (imageDescription (sl ! i))) of
                              Inr parts \<Rightarrow> extractImageFromResponse parts
                            | Inl err \<Rightarrow>
                                if fallsBack err then
                                  (case imageService e
                                          (lgi @ [primaryRequest (imageDescription (sl ! i))])
                                          (fallbackRequest (imageDescription (sl ! i))) of
                                     Inr parts \<Rightarrow> extractImageFromResponse parts
                                   | Inl err2 \<Rightarrow> None)
                                else None)))
         \<and> (\<exists>ext. generateSlideImage e p lg
               = (Inr (case imageService e lg (primaryRequest p) of
                         Inr parts \<Rightarrow> extractImageFromResponse parts
                       | Inl err \<Rightarrow>
                           if fallsBack err then
                             (case imageService e (lg @ [primaryRequest p]) (fallbackRequest p) of
                                Inr parts \<Rightarrow> extractImageFromResponse parts
                              | Inl err2 \<Rightarrow> None)
                           else None), lg @ ext))
         \<and> (\<forall>parts. (\<forall>q\<in>set parts. inlineData q = None) \<longrightarrow>
               extractImageFromResponse parts = None)
         \<and> (\<forall>err. imageService e lg (primaryRequest p) = Inl err \<longrightarrow>
               (fallsBack err \<longrightarrow>
                  (\<exists>err2. imageService e (lg @ [primaryRequest p]) (fallbackRequest p) = Inl err2)) \<longrightarrow>
               fst (generateSlideImage e p lg) = Inr None)
         \<and> (\<forall>err parts. imageService e lg (primaryRequest p) = Inl err \<longrightarrow> fallsBack err \<longrightarrow>
               imageService e (lg @ [primaryRequest p]) (fallbackRequest p) = Inr parts \<longrightarrow>
               (\<forall>q\<in>set parts. inlineData q = None) \<longrightarrow>
               fst (generateSlideImage e p lg) = Inr None)
         \<and> (\<forall>parts. imageService e lg (primaryRequest p) = Inr parts \<longrightarrow>
               (\<forall>q\<in>set parts. inlineData q = None) \<longrightarrow>
               fst (generateSlideImage e p lg) = Inr None)
         \<and> (\<forall>s. imageBase64 s = None \<longrightarrow>
               take 2 (drop 1 (elements (contentSlide s)))
                 = [ShapeEl ''rect'' (xywh imageX contentY imageWidth contentHeight) ''F1F5F9'',
                    TextEl (Plain noImageText)
                      ((opts (xywh imageX contentY imageWidth contentHeight))
                         \<lparr>fontSize := Some 10, align := Some ''center'',
                          color := Some ''94A3B8''\<rparr>)])
         \<and> (\<forall>data. contentService e [] topic n = Inr data \<longrightarrow> \<not> writeFileFails e \<longrightarrow>
               (\<exists>sws ext. generateDeck e topic n
                   = (Inr \<lparr>gen_data = data, gen_slides = sws,
                           gen_fileName = fileName (deckTitle data),
                           gen_pres = buildPresentation data sws\<rparr>, ContentRequest topic n # ext)
                  \<and> map slide_data.truncate sws = slides data
                  \<and> fetchImages e (slides data) [] [ContentRequest topic n]
                      = (Inr sws, ContentRequest topic n # ext)
                  \<and> (\<forall>i<length sws. imageBase64 (sws ! i) = None \<longrightarrow>
                        take 2 (drop 1 (elements
                            (pres_slides (buildPresentation data sws) ! (i + 1))))
                          = [ShapeEl ''rect'' (xywh imageX contentY imageWidth contentHeight)
                               ''F1F5F9'',
                             TextEl (Plain noImageText)
                               ((opts (xywh imageX contentY imageWidth contentHeight))
                                  \<lparr>fontSize := Some 10, align := Some ''center'',
                                   color := Some ''94A3B8''\<rparr>)])))"
proof -
  from fetchImages_key [OF key, of sl "[]" lg] obtain out ext where
    run: "fetchImages e sl [] lg = (Inr out, lg @ ext)"
    and t: "map slide_data.truncate out = sl"
    and o: "filter isPrimary ext
                = map primaryRequest (filter (\<lambda>d. d \<noteq> []) (map imageDescription sl))"
    and v: "\<forall>s\<in>set out. imageBase64 s = None \<or> truthy (imageBase64 s)"
    by auto
  have nth: "\<forall>i<length sl. \<exists>mid lgi.
                  fetchImages e (take i sl) [] lg = (Inr mid, lgi)
                  \<and> imageBase64 (out ! i)
                    = (if imageDescription (sl ! i) = [] then None
                       else case imageService e lgi (primaryRequest (imageDescription (sl ! i))) of
                              Inr parts \<Rightarrow> extractImageFromResponse parts
                            | Inl err \<Rightarrow>
                                if fallsBack err then
                                  (case imageService e
                                          (lgi @ [primaryRequest (imageDescription (sl ! i))])
                                          (fallbackRequest (imageDescription (sl ! i))) of
                                     Inr parts \<Rightarrow> extractImageFromResponse parts
                                   | Inl err2 \<Rightarrow> None)
                                else None)"
    using fetchImages_nth [OF key _ run] by blast
  have a: "\<exists>out ext. fetchImages e sl [] lg = (Inr out, lg @ ext)
            \<and> map slide_data.truncate out = sl
            \<and> filter isPrimary ext
                = map primaryRequest (filter (\<lambda>d. d \<noteq> []) (map imageDescription sl))
            \<and> (\<forall>s\<in>set out. imageBase64 s = None \<or> truthy (imageBase64 s))
            \<and> (\<forall>i<length sl. \<exists>mid lgi.
                  fetchImages e (take i sl) [] lg = (Inr mid, lgi)
                  \<and> imageBase64 (out ! i)
                    = (if imageDescription (sl ! i) = [] then None
                       else case imageService e lgi (primaryRequest (imageDescription (sl ! i))) of
                              Inr parts \<Rightarrow> extractImageFromResponse parts
                            | Inl err \<Rightarrow>
                                if fallsBack err then
                                  (case imageService e
                                          (lgi @ [primaryRequest (imageDescription (sl ! i))])
                                          (fallbackRequest (imageDescription (sl ! i))) of
                                     Inr parts \<Rightarrow> extractImageFromResponse parts
                                   | Inl err2 \<Rightarrow> None)
                                else None))"
    by (rule exI [of _ out], rule exI [of _ ext]) (intro conjI run t o v nth)
  note r = generateSlideImage_result [OF key, of p lg]
  have x: "\<forall>parts. (\<forall>q\<in>set parts. inlineData q = None) \<longrightarrow>
               extractImageFromResponse parts = None"
    using extract_empty by blast
  have b: "\<forall>err. imageService e lg (primaryRequest p) = Inl err \<longrightarrow>
               (fallsBack err \<longrightarrow>
                  (\<exists>err2. imageService e (lg @ [primaryRequest p]) (fallbackRequest p) = Inl err2)) \<longrightarrow>
               fst (generateSlideImage e p lg) = Inr None"
    using generateSlideImage_rejected [OF key] by blast
  have b': "\<forall>err parts. imageService e lg (primaryRequest p) = Inl err \<longrightarrow> fallsBack err \<longrightarrow>
               imageService e (lg @ [primaryRequest p]) (fallbackRequest p) = Inr parts \<longrightarrow>
               (\<forall>q\<in>set parts. inlineData q = None) \<longrightarrow>
               fst (generateSlideImage e p lg) = Inr None"
    using r by (auto simp: extract_empty)
  have c: "\<forall>parts. imageService e lg (primaryRequest p) = Inr parts \<longrightarrow>
               (\<forall>q\<in>set parts. inlineData q = None) \<longrightarrow>
               fst (generateSlideImage e p lg) = Inr None"
    using generateSlideImage_empty [OF key] by blast
  have d: "\<forall>s. imageBase64 s = None \<longrightarrow>
               take 2 (drop 1 (elements (contentSlide s)))
                 = [ShapeEl ''rect'' (xywh imageX contentY imageWidth contentHeight) ''F1F5F9'',
                    TextEl (Plain noImageText)
                      ((opts (xywh imageX contentY imageWidth contentHeight))
                         \<lparr>fontSize := Some 10, align := Some ''center'',
                          color := Some ''94A3B8''\<rparr>)]"
    using placeholder_elements by blast
  have f: "\<forall>data. contentService e [] topic n = Inr data \<longrightarrow> \<not> writeFileFails e \<longrightarrow>
               (\<exists>sws ext. generateDeck e topic n
                   = (Inr \<lparr>gen_data = data, gen_slides = sws,
                           gen_fileName = fileName (deckTitle data),
                           gen_pres = buildPresentation data sws\<rparr>, ContentRequest topic n # ext)
                  \<and> map slide_data.truncate sws = slides data
                  \<and> fetchImages e (slides data) [] [ContentRequest topic n]
                      = (Inr sws, ContentRequest topic n # ext)
                  \<and> (\<forall>i<length sws. imageBase64 (sws ! i) = None \<longrightarrow>
                        take 2 (drop 1 (elements
                            (pres_slides (buildPresentation data sws) ! (i + 1))))
                          = [ShapeEl ''rect'' (xywh imageX contentY imageWidth contentHeight)
                               ''F1F5F9'',
                             TextEl (Plain noImageText)
                               ((opts (xywh imageX contentY imageWidth contentHeight))
                                  \<lparr>fontSize := Some 10, align := Some ''center'',
                                   color := Some ''94A3B8''\<rparr>)]))"
  proof (intro allI impI)
    fix data
    assume cs: "contentService e [] topic n = Inr data" and w: "\<not> writeFileFails e"
    from generateDeck_fetch [OF cs key w] obtain sws ext where
      g: "generateDeck e topic n
            = (Inr \<lparr>gen_data = data, gen_slides = sws, gen_fileName = fileName (deckTitle data),
                    gen_pres = buildPresentation data sws\<rparr>, ContentRequest topic n # ext)"
      and tr: "map slide_data.truncate sws = slides data"
      and fe: "fetchImages e (slides data) [] [ContentRequest topic n]
               = (Inr sws, ContentRequest topic n # ext)"
      by blast
    have ph: "\<forall>i<length sws. imageBase64 (sws ! i) = None \<longrightarrow>
                        take 2 (drop 1 (elements
                            (pres_slides (buildPresentation data sws) ! (i + 1))))
                          = [ShapeEl ''rect'' (xywh imageX contentY imageWidth contentHeight)
                               ''F1F5F9'',
                             TextEl (Plain noImageText)
                               ((opts (xywh imageX contentY imageWidth contentHeight))
                                  \<lparr>fontSize := Some 10, align := Some ''center'',
                                   color := Some ''94A3B8''\<rparr>)]"
      using placeholder_in_deck by blast
    show "\<exists>sws ext. generateDeck e topic n
                   = (Inr \<lparr>gen_data = data, gen_slides = sws,
                           gen_fileName = fileName (deckTitle data),
                           gen_pres = buildPresentation data sws\<rparr>, ContentRequest topic n # ext)
                  \<and> map slide_data.truncate sws = slides data
                  \<and> fetchImages e (slides data) [] [ContentRequest topic n]
                      = (Inr sws, ContentRequest topic n # ext)
                  \<and> (\<forall>i<length sws. imageBase64 (sws ! i) = None \<longrightarrow>
                        take 2 (drop 1 (elements
                            (pres_slides (buildPresentation data sws) ! (i + 1))))
                          = [ShapeEl ''rect'' (xywh imageX contentY imageWidth contentHeight)
                               ''F1F5F9'',
                             TextEl (Plain noImageText)
                               ((opts (xywh imageX contentY imageWidth contentHeight))
                                  \<lparr>fontSize := Some 10, align := Some ''center'',
                                   color := Some ''94A3B8''\<rparr>)])"
      by (rule exI [of _ sws], rule exI [of _ ext]) (intro conjI g tr fe ph)
  qed
  show ?thesis
    by (intro conjI a r x b b' c d f)
qed

theorem illustration_failure_degrades_witness:
  "truthy (apiKey sampleEnv)
   \<and> fst (generateSlideImage sampleEnv (js ''axes'') [ContentRequest (js ''vectors'') 5]) = Inr None
   \<and> fst (generateSlideImage sampleEnv (js ''circle'') [ContentRequest (js ''vectors'') 5]) = Inr None
   \<and> fst (generateSlideImage sampleEnv (js ''grid'') [ContentRequest (js ''vectors'') 5]) = Inr None
   \<and> (\<exists>sws ext. generateDeck sampleEnv (js ''vectors'') 5
          = (Inr \<lparr>gen_data = sampleData, gen_slides = sws,
                  gen_fileName = fileName (deckTitle sampleData),
                  gen_pres = buildPresentation sampleData sws\<rparr>,
             ContentRequest (js ''vectors'') 5 # ext)
        \<and> map slide_data.truncate sws = slides sampleData
        \<and> imageBase64 (sws ! 0) = None
        \<and> take 2 (drop 1 (elements (pres_slides (buildPresentation sampleData sws) ! 1)))
            = [ShapeEl ''rect'' (xywh imageX contentY imageWidth contentHeight) ''F1F5F9'',
               TextEl (Plain noImageText)
                 ((opts (xywh imageX contentY imageWidth contentHeight))
                    \<lparr>fontSize := Some 10, align := Some ''center'', color := Some ''94A3B8''\<rparr>)])"
proof -
  let ?lg = "[ContentRequest (js ''vectors'') 5]"
  note k = sample_facts(1)
  note axes = illustration_failure_degrades [OF k, of "slides sampleData" ?lg "js ''axes''"
      "js ''vectors''" 5]
  have fb: "fallsBack (ApiError (Some 404) None)"
    by (simp add: fallsBack_def)
  have p1: "fst (generateSlideImage sampleEnv (js ''axes'') ?lg) = Inr None"
    using axes sample_axes [of ?lg] by simp
  have p2: "fst (generateSlideImage sampleEnv (js ''circle'') ?lg) = Inr None"
    using illustration_failure_degrades [OF k, of "[]" ?lg "js ''circle''" "js ''vectors''" 5]
      sample_circle [of ?lg]
    by simp
  have p3: "fst (generateSlideImage sampleEnv (js ''grid'') ?lg) = Inr None"
    using illustration_failure_degrades [OF k, of "[]" ?lg "js ''grid''" "js ''vectors''" 5]
      sample_grid [of ?lg] fb
    by simp
  from axes obtain out ext0 where
    run: "fetchImages sampleEnv (slides sampleData) [] ?lg = (Inr out, ?lg @ ext0)"
    and nth: "\<forall>i<length (slides sampleData). \<exists>mid lgi.
        fetchImages sampleEnv (take i (slides sampleData)) [] ?lg = (Inr mid, lgi)
        \<and> imageBase64 (out ! i)
          = (if imageDescription (slides sampleData ! i) = [] then None
             else case imageService sampleEnv lgi
                         (primaryRequest (imageDescription (slides sampleData ! i))) of
                    Inr parts \<Rightarrow> extractImageFromResponse parts
                  | Inl err \<Rightarrow>
                      if fallsBack err then
                        (case imageService sampleEnv
                                (lgi @ [primaryRequest (imageDescription (slides sampleData ! i))])
                                (fallbackRequest (imageDescription (slides sampleData ! i))) of
                           Inr parts \<Rightarrow> extractImageFromResponse parts
                         | Inl err2 \<Rightarrow> None)
                      else None)"
    by blast
  from nth sample_first(1) obtain mid lgi where
    "fetchImages sampleEnv (take 0 (slides sampleData)) [] ?lg = (Inr mid, lgi)"
    and i0: "imageBase64 (out ! 0)
          = (if imageDescription (slides sampleData ! 0) = [] then None
             else case imageService sampleEnv lgi
                         (primaryRequest (imageDescription (slides sampleData ! 0))) of
                    Inr parts \<Rightarrow> extractImageFromResponse parts
                  | Inl err \<Rightarrow>
                      if fallsBack err then
                        (case imageService sampleEnv
                                (lgi @ [primaryRequest (imageDescription (slides sampleData ! 0))])
                                (fallbackRequest (imageDescription (slides sampleData ! 0))) of
                           Inr parts \<Rightarrow> extractImageFromResponse parts
                         | Inl err2 \<Rightarrow> None)
                      else None)"
    by blast
  then have none0: "imageBase64 (out ! 0) = None"
    using sample_first(2,3) sample_axes [of lgi] by (simp add: fallsBack_def)
  from axes sample_facts(2,3) obtain sws ext where
    g: "generateDeck sampleEnv (js ''vectors'') 5
          = (Inr \<lparr>gen_data = sampleData, gen_slides = sws,
                  gen_fileName = fileName (deckTitle sampleData),
                  gen_pres = buildPresentation sampleData sws\<rparr>,
             ContentRequest (js ''vectors'') 5 # ext)"
    and tr: "map slide_data.truncate sws = slides sampleData"
    and fe: "fetchImages sampleEnv (slides sampleData) [] ?lg
               = (Inr sws, ContentRequest (js ''vectors'') 5 # ext)"
    and ph: "\<forall>i<length sws. imageBase64 (sws ! i) = None \<longrightarrow>
               take 2 (drop 1 (elements (pres_slides (buildPresentation sampleData sws) ! (i + 1))))
                 = [ShapeEl ''rect'' (xywh imageX contentY imageWidth contentHeight) ''F1F5F9'',
                    TextEl (Plain noImageText)
                      ((opts (xywh imageX contentY imageWidth contentHeight))
                         \<lparr>fontSize := Some 10, align := Some ''center'',
                          color := Some ''94A3B8''\<rparr>)]"
    by blast
  have same: "sws = out"
    using run fe by simp
  have len: "0 < length sws"
    using tr sample_first(1) by (metis length_map)
  have s0: "imageBase64 (sws ! 0) = None"
    using none0 same by simp
  have pl: "take 2 (drop 1 (elements (pres_slides (buildPresentation sampleData sws) ! 1)))
                 = [ShapeEl ''rect'' (xywh imageX contentY imageWidth contentHeight) ''F1F5F9'',
                    TextEl (Plain noImageText)
                      ((opts (xywh imageX contentY imageWidth contentHeight))
                         \<lparr>fontSize := Some 10, align := Some ''center'',
                          color := Some ''94A3B8''\<rparr>)]"
    using ph len s0 by fastforce
  have "\<exists>sws ext. generateDeck sampleEnv (js ''vectors'') 5
          = (Inr \<lparr>gen_data = sampleData, gen_slides = sws,
                  gen_fileName = fileName (deckTitle sampleData),
                  gen_pres = buildPresentation sampleData sws\<rparr>,
             ContentRequest (js ''vectors'') 5 # ext)
        \<and> map slide_data.truncate sws = slides sampleData
        \<and> imageBase64 (sws ! 0) = None
        \<and> take 2 (drop 1 (elements (pres_slides (buildPresentation sampleData sws) ! 1)))
            = [ShapeEl ''rect'' (xywh imageX contentY imageWidth contentHeight) ''F1F5F9'',
               TextEl (Plain noImageText)
                 ((opts (xywh imageX contentY imageWidth contentHeight))
                    \<lparr>fontSize := Some 10, align := Some ''center'', color := Some ''94A3B8''\<rparr>)]"
    by (rule exI [of _ sws], rule exI [of _ ext]) (intro conjI g tr s0 pl)
  with k p1 p2 p3 show ?thesis
    by blast
qed

text \<open>
  C7 (slide count validation). The inputs \<open>0\<close>, \<open>21\<close> and \<open>abc\<close> are rejected; an input
  is accepted exactly when \<^verbatim>\<open>parseInt\<close> reads a number from 1 to 20 off it; and on a
  rejected input the flow only reports the invalid count: it makes no request to the
  service, builds and writes no presentation, and stays in the COUNT step.
\<close>

theorem count_validation:
  "validCount (js ''0'') = None \<and> validCount (js ''21'') = None \<and> validCount (js ''abc'') = None
   \<and> (validCount input = Some n \<longleftrightarrow> parseInt input = Some n \<and> 1 \<le> n \<and> n \<le> 20)
   \<and> (presentationStep st = COUNT \<longrightarrow> validCount input = None \<longrightarrow>
        handlePresentationFlow e input st
          = \<lparr>state = st\<lparr>messages := messages st @ [InvalidCount], isLoading := False\<rparr>,
             calls = [], written = None\<rparr>)"
proof -
  have "validCount (js ''0'') = None" "validCount (js ''21'') = None"
      "validCount (js ''abc'') = None"
    by (simp_all add: validCount_def parseInt_def js_def isWhiteSpace_def isRadixDigit_def
        digitValue_def mathInt_def)
  then show ?thesis
    using validCount_iff [of input n] flow_rejected [of st input e] by simp
qed

theorem count_validation_witness:
  "presentationStep countState = COUNT
   \<and> validCount (js ''21'') = None
   \<and> calls (handlePresentationFlow sampleEnv (js ''21'') countState) = []
   \<and> written (handlePresentationFlow sampleEnv (js ''21'') countState) = None
   \<and> presentationStep (state (handlePresentationFlow sampleEnv (js ''21'') countState)) = COUNT"
proof -
  have h: "presentationStep countState = COUNT"
    by (simp add: countState_def)
  show ?thesis
    using count_validation [of "js ''21''" 21 countState sampleEnv] h by simp
qed

text \<open>
  C8 (width of the examples band), evaluated on the slide of Scenario C. The list of
  examples is as wide as the content, \<open>SLIDE_WIDTH - MARGIN * 2 = 9\<close>, but the label is
  given \<open>textWidth = 28 / 5\<close>, the width of the text column.
\<close>

theorem examples_label_width:
  "elements (contentSlide scenarioC) ! 3
     = TextEl (Plain examplesLabelText)
         ((opts (xywh MARGIN examplesY textWidth 0.3))
            \<lparr>fontSize := Some 14, bold := True, color := Some ''0F172A'', rtl := True,
             align := Some ''right''\<rparr>)
   \<and> width (geometry_of (elements (contentSlide scenarioC) ! 3)) = Inches (28 / 5)
   \<and> width (geometry_of (elements (contentSlide scenarioC) ! 4)) = Inches 9
   \<and> SLIDE_WIDTH - MARGIN * 2 = 9"
  by (simp add: elements_contentSlide scenarioC_def js_def geom_opts width_xywh textWidth_def
      SLIDE_WIDTH_def MARGIN_def imageWidth_def)

text \<open>
  C9 (lenient count parsing). An input that starts with decimal digits and goes on with
  anything that is not a digit is read as the number its digits spell; when that number
  is from 1 to 20 the input is accepted, the flow announces that count, and with an API
  key its first request asks for that many slides.
\<close>

theorem lenient_count_parsing:
  assumes "ds \<noteq> []"
    and "\<forall>c\<in>set ds. 0x30 \<le> c \<and> c \<le> 0x39"
    and "rest = [] \<or> \<not> (0x30 \<le> hd rest \<and> hd rest \<le> 0x39)"
    and "1 \<le> mathInt 10 ds" and "mathInt 10 ds \<le> 20"
  shows "parseInt (ds @ rest) = Some (int (mathInt 10 ds))
         \<and> validCount (ds @ rest) = Some (int (mathInt 10 ds))
         \<and> (presentationStep st = COUNT \<longrightarrow>
              messages (state (handlePresentationFlow e (ds @ rest) st)) ! length (messages st)
                = Started (presentationTopic st) (int (mathInt 10 ds)))
         \<and> (presentationStep st = COUNT \<longrightarrow> truthy (apiKey e) \<longrightarrow>
              hd (calls (handlePresentationFlow e (ds @ rest) st))
                = ContentRequest (presentationTopic st) (int (mathInt 10 ds)))"
proof -
  have p: "parseInt (ds @ rest) = Some (int (mathInt 10 ds))"
    using assms(1-4) by (rule parseInt_digits)
  then have v: "validCount (ds @ rest) = Some (int (mathInt 10 ds))"
    using assms(4,5) by (simp add: validCount_iff)
  have c: "hd (calls (handlePresentationFlow e (ds @ rest) st))
             = ContentRequest (presentationTopic st) (int (mathInt 10 ds))"
    if cnt: "presentationStep st = COUNT" and key: "truthy (apiKey e)"
  proof -
    obtain r ext where "generateDeck e (presentationTopic st) (int (mathInt 10 ds))
         = (r, ContentRequest (presentationTopic st) (int (mathInt 10 ds)) # ext)"
      using generateDeck_calls [OF key] by blast
    then show ?thesis
      using flow_accepted [OF cnt v, of e] by simp
  qed
  show ?thesis
    using p v c flow_accepted [OF _ v, of st e] by simp
qed

theorem lenient_count_parsing_witness:
  "validCount (js ''5.9'') = Some 5 \<and> validCount (js ''7abc'') = Some 7
   \<and> messages (state (handlePresentationFlow sampleEnv (js ''5.9'') countState)) ! 0
       = Started (js ''vectors'') 5
   \<and> hd (calls (handlePresentationFlow sampleEnv (js ''7abc'') countState))
       = ContentRequest (js ''vectors'') 7"
proof -
  have m: "mathInt 10 (js ''5'') = 5" "mathInt 10 (js ''7'') = 7"
    by (simp_all add: mathInt_def digitValue_def js_def)
  have d: "\<forall>c\<in>set (js ''5''). 0x30 \<le> c \<and> c \<le> 0x39" "\<forall>c\<in>set (js ''7''). 0x30 \<le> c \<and> c \<le> 0x39"
    by (simp_all add: js_def)
  have r: "js ''.9'' = [] \<or> \<not> (0x30 \<le> hd (js ''.9'') \<and> hd (js ''.9'') \<le> 0x39)"
      "js ''abc'' = [] \<or> \<not> (0x30 \<le> hd (js ''abc'') \<and> hd (js ''abc'') \<le> 0x39)"
    by (simp_all add: js_def)
  have s: "presentationStep countState = COUNT" "truthy (apiKey sampleEnv)"
      "presentationTopic countState = js ''vectors''" "messages countState = []"
    by (simp_all add: countState_def sampleEnv_def js_def)
  have a: "js ''5'' @ js ''.9'' = js ''5.9''" "js ''7'' @ js ''abc'' = js ''7abc''"
    by (simp_all add: js_def)
  show ?thesis
    using lenient_count_parsing [of "js ''5''" "js ''.9''" countState sampleEnv]
      lenient_count_parsing [of "js ''7''" "js ''abc''" countState sampleEnv]
      m d r s a
    by (simp add: js_def)
qed

text \<open>
  C10 (empty image description). For a slide whose \<^verbatim>\<open>imageDescription\<close> is empty the
  loop makes no request: it goes on with the log of requests unchanged and the slide
  pushed with \<^verbatim>\<open>imageBase64\<close> null, and the content slide of that slide has the
  placeholder rectangle and caption. When no slide has a description the loop makes no
  request at all.
\<close>

theorem empty_description_short_circuits:
  "(imageDescription slide = [] \<longrightarrow>
      fetchImages e (slide # rest) acc lg
        = fetchImages e rest
            (acc @ [slide_data.extend slide (slide_with_image.fields None)]) lg
      \<and> imageBase64 (slide_data.extend slide (slide_with_image.fields None)) = None
      \<and> take 2 (drop 1 (elements (contentSlide
            (slide_data.extend slide (slide_with_image.fields None)))))
         = [ShapeEl ''rect'' (xywh imageX contentY imageWidth contentHeight) ''F1F5F9'',
            TextEl (Plain noImageText)
              ((opts (xywh imageX contentY imageWidth contentHeight))
                 \<lparr>fontSize := Some 10, align := Some ''center'', color := Some ''94A3B8''\<rparr>)])
   \<and> ((\<forall>s\<in>set sl. imageDescription s = []) \<longrightarrow>
        fetchImages e sl acc lg
          = (Inr (acc @ map (\<lambda>s. slide_data.extend s (slide_with_image.fields None)) sl), lg))
   \<and> (truthy (apiKey e) \<longrightarrow>
        (\<exists>out ext. fetchImages e sl [] lg = (Inr out, lg @ ext)
           \<and> length out = length sl
           \<and> (\<forall>i<length sl. imageDescription (sl ! i) = [] \<longrightarrow> imageBase64 (out ! i) = None)))"
proof -
  have "truthy (apiKey e) \<longrightarrow>
        (\<exists>out ext. fetchImages e sl [] lg = (Inr out, lg @ ext)
           \<and> length out = length sl
           \<and> (\<forall>i<length sl. imageDescription (sl ! i) = [] \<longrightarrow> imageBase64 (out ! i) = None))"
  proof
    assume k: "truthy (apiKey e)"
    from fetchImages_key [OF k, of sl "[]" lg] obtain out ext where
      f: "fetchImages e sl [] lg = (Inr out, lg @ ext)"
      and t: "map slide_data.truncate out = sl"
      and n: "\<forall>i<length sl. imageDescription (sl ! i) = [] \<longrightarrow> imageBase64 (out ! i) = None"
      by auto
    from t have "length out = length sl"
      by (metis length_map)
    with f n show "\<exists>out ext. fetchImages e sl [] lg = (Inr out, lg @ ext)
           \<and> length out = length sl
           \<and> (\<forall>i<length sl. imageDescription (sl ! i) = [] \<longrightarrow> imageBase64 (out ! i) = None)"
      by blast
  qed
  then show ?thesis
    using fetchImages_no_description [of sl e acc lg]
    by (simp add: elements_contentSlide imageBase64_extend)
qed

theorem empty_description_short_circuits_witness:
  "imageDescription introData = []
   \<and> fetchImages sampleEnv [introData] [] [ContentRequest (js ''vectors'') 1]
       = (Inr [introSlide], [ContentRequest (js ''vectors'') 1])
   \<and> imageBase64 introSlide = None
   \<and> take 2 (drop 1 (elements (contentSlide introSlide)))
         = [ShapeEl ''rect'' (xywh imageX contentY imageWidth contentHeight) ''F1F5F9'',
            TextEl (Plain noImageText)
              ((opts (xywh imageX contentY imageWidth contentHeight))
                 \<lparr>fontSize := Some 10, align := Some ''center'', color := Some ''94A3B8''\<rparr>)]"
proof -
  have h: "imageDescription introData = []"
    by (simp add: introData_def)
  show ?thesis
    using empty_description_short_circuits [of introData sampleEnv "[]" "[]"
        "[ContentRequest (js ''vectors'') 1]" "[introData]"] h
    by (simp add: introSlide_def)
qed

end
